theory Spec2Isabelle
  imports Complex_Main "HOL-Library.AList"
begin

section \<open>JavaScript values used by the translation service\<close>

text \<open>
  The model follows \<^verbatim>\<open>packages/jaeger-ui/src/services/AITranslationService.ts\<close>.
  A JavaScript string is modelled as a \<^typ>\<open>string\<close>: a list of code units in the range
  U+0000 .. U+00FF. Every character the code inspects (space, \<^verbatim>\<open>=\<close>, digits, letters,
  braces, \<^verbatim>\<open>$\<close>) is in that range.

  A JavaScript number is an IEEE double. \<open>Num q\<close> stands for the double nearest to the
  rational \<open>q\<close> (every finite double is its own nearest double, and a \<open>q\<close> beyond the
  range stands for an infinity). The double nearest to \<open>q\<close> is a zero exactly when
  \<open>\<bar>q\<bar> \<le> 1 / 2 ^ 1075\<close> (half of the least subnormal number; a tie goes to the even
  neighbour, which is zero), and that is the only place where the rounding matters here:
  \<open>NaN\<close> and the zeros are the falsy numbers.
\<close>

datatype number = NaN | Num rat

definition number_truthy :: "number \<Rightarrow> bool" where
  "number_truthy n = (case n of NaN \<Rightarrow> False | Num q \<Rightarrow> 1 / 2 ^ 1075 < \<bar>q\<bar>)"

text \<open>
  The errors a call can end with. \<open>Error m\<close> is \<^verbatim>\<open>new Error(m)\<close> thrown by the service
  itself; \<open>TypeError\<close>, \<open>SyntaxError\<close> and \<open>TimeoutError\<close> are raised by the platform (a
  property read on \<^verbatim>\<open>undefined\<close> or a refused \<^verbatim>\<open>fetch\<close>; \<^verbatim>\<open>JSON.parse\<close> and
  \<^verbatim>\<open>response.json()\<close>; \<^verbatim>\<open>AbortSignal.timeout\<close>). \<open>NotAJaegerQuery\<close> is not an error of the
  program: it marks the end of the model, where the parsed response is not an object of
  the shape \<^verbatim>\<open>interface JaegerQuery\<close> declares.
\<close>

datatype error = Error string | TypeError | SyntaxError | TimeoutError | NotAJaegerQuery

subsection \<open>String built-ins\<close>

text \<open>\<^verbatim>\<open>s.split(sep)\<close> for a separator of one character: the pieces between the
  occurrences of \<open>sep\<close>, at least one piece (\<^verbatim>\<open>''.split(' ')\<close> is \<^verbatim>\<open>['']\<close>).\<close>

fun js_split :: "char \<Rightarrow> string \<Rightarrow> string list" where
  "js_split sep [] = [[]]"
| "js_split sep (c # cs) =
     (if c = sep then [] # js_split sep cs
      else (case js_split sep cs of [] \<Rightarrow> [[c]] | p # ps \<Rightarrow> (c # p) # ps))"

text \<open>\<^verbatim>\<open>xs.join(sep)\<close>.\<close>

fun js_join :: "string \<Rightarrow> string list \<Rightarrow> string" where
  "js_join sep [] = []"
| "js_join sep [x] = x"
| "js_join sep (x # y # ys) = x @ sep @ js_join sep (y # ys)"

definition is_digit :: "char \<Rightarrow> bool" where
  "is_digit c = (c \<in> set ''0123456789'')"

text \<open>The white space \<^verbatim>\<open>parseInt\<close> skips (TAB, LF, VT, FF, CR, SP, NBSP in this range).\<close>

definition StrWhiteSpaceChar :: "char \<Rightarrow> bool" where
  "StrWhiteSpaceChar c = (c \<in> set [CHR 0x09, CHR 0x0A, CHR 0x0B, CHR 0x0C, CHR 0x0D, CHR 0x20, CHR 0xA0])"

definition digit_value :: "char \<Rightarrow> nat" where
  "digit_value c = of_char c - 48"

definition digits_value :: "string \<Rightarrow> nat" where
  "digits_value ds = foldl (\<lambda>a c. 10 * a + digit_value c) 0 ds"

text \<open>
  \<^verbatim>\<open>parseInt(s, 10)\<close>: skip leading white space, read an optional sign, then the longest
  run of decimal digits; \<open>NaN\<close> when that run is empty. With radix 10 no \<^verbatim>\<open>0x\<close> prefix is
  recognised.
\<close>

definition parseInt :: "string \<Rightarrow> number" where
  "parseInt input =
     (let s = dropWhile StrWhiteSpaceChar input;
          neg = (case s of [] \<Rightarrow> False | c # _ \<Rightarrow> c = CHR ''-'');
          s' = (case s of [] \<Rightarrow> [] | c # r \<Rightarrow> if c = CHR ''-'' \<or> c = CHR ''+'' then r else s);
          z = takeWhile is_digit s'
      in if z = [] then NaN
         else if neg then Num (- of_nat (digits_value z))
         else Num (of_nat (digits_value z)))"

subsection \<open>The regular expressions of \<^verbatim>\<open>validateQuery\<close>\<close>

definition is_unit :: "char \<Rightarrow> bool" where
  "is_unit c = (c \<in> set ''hdms'')"

text \<open>\<^verbatim>\<open>/^\d+[hdms]$/.test(s)\<close>: one or more digits, one unit letter, end of input.\<close>

definition lookback_test :: "string \<Rightarrow> bool" where
  "lookback_test s =
     (takeWhile is_digit s \<noteq> [] \<and>
      (case dropWhile is_digit s of [u] \<Rightarrow> is_unit u | _ \<Rightarrow> False))"

text \<open>\<^verbatim>\<open>/^\d+(\.\d+)?[hdms]$/.test(s)\<close>: digits, an optional fraction (a dot and digits),
  one unit letter, end of input.\<close>

definition durationRegex_test :: "string \<Rightarrow> bool" where
  "durationRegex_test s =
     (takeWhile is_digit s \<noteq> [] \<and>
      (case dropWhile is_digit s of
         [] \<Rightarrow> False
       | c # r \<Rightarrow>
           if c = CHR ''.''
           then takeWhile is_digit r \<noteq> [] \<and>
                (case dropWhile is_digit r of [u] \<Rightarrow> is_unit u | _ \<Rightarrow> False)
           else r = [] \<and> is_unit c))"

definition is_tag_key_char :: "char \<Rightarrow> bool" where
  "is_tag_key_char c =
     (c \<in> set ''abcdefghijklmnopqrstuvwxyzABCDEFGHIJKLMNOPQRSTUVWXYZ0123456789._-'')"

text \<open>\<^verbatim>\<open>/^[a-zA-Z0-9._-]+=/.test(pair)\<close>: the text starts with one or more characters of
  the class, followed by \<^verbatim>\<open>=\<close>; what comes after is not looked at.\<close>

definition tag_test :: "string \<Rightarrow> bool" where
  "tag_test pair =
     (takeWhile is_tag_key_char pair \<noteq> [] \<and>
      (case dropWhile is_tag_key_char pair of [] \<Rightarrow> False | c # _ \<Rightarrow> c = CHR ''=''))"

section \<open>The query and the service\<close>

text \<open>
  \<^verbatim>\<open>interface JaegerQuery\<close>: every field is optional, and \<open>None\<close> is a field that
  reads as \<^verbatim>\<open>undefined\<close> (deleted, never set, or set to \<^verbatim>\<open>undefined\<close>). The string
  fields hold strings, as the interface declares. \<^verbatim>\<open>validateQuery\<close> itself treats
  \<^verbatim>\<open>limit\<close> as a value of any type (\<^verbatim>\<open>typeof query.limit !== 'number'\<close>), so \<open>limit\<close>
  ranges over the scalar JSON values.
\<close>

datatype limit_value = LNull | LBool bool | LNum number | LStr string

record JaegerQuery =
  service :: "string option"
  tags :: "string option"
  lookback :: "string option"
  limit :: "limit_value option"
  minDuration :: "string option"
  maxDuration :: "string option"

text \<open>The two mutable fields of \<^verbatim>\<open>class AITranslationService\<close>; \<open>serviceRoutes\<close> is the
  object used as a dictionary from service name to routes.\<close>

record AITranslationService =
  services :: "string list"
  serviceRoutes :: "string \<rightharpoonup> string list"

text \<open>Truthiness, as \<^verbatim>\<open>if (v)\<close>, \<^verbatim>\<open>v && \<dots>\<close> and \<^verbatim>\<open>!v\<close> read a value.\<close>

definition string_truthy :: "string option \<Rightarrow> bool" where
  "string_truthy v = (case v of None \<Rightarrow> False | Some s \<Rightarrow> s \<noteq> [])"

definition limit_truthy :: "limit_value option \<Rightarrow> bool" where
  "limit_truthy v =
     (case v of
        None \<Rightarrow> False
      | Some LNull \<Rightarrow> False
      | Some (LBool b) \<Rightarrow> b
      | Some (LNum n) \<Rightarrow> number_truthy n
      | Some (LStr s) \<Rightarrow> s \<noteq> [])"

section \<open>\<^verbatim>\<open>validateQuery\<close>\<close>

text \<open>\<^verbatim>\<open>parseInt(v, 10) || 100\<close>.\<close>

definition parseInt_or_100 :: "string \<Rightarrow> number" where
  "parseInt_or_100 s = (let n = parseInt s in if number_truthy n then n else Num 100)"

text \<open>
  Lines 223-225: a truthy \<open>limit\<close> that is not a number is replaced by
  \<^verbatim>\<open>parseInt(limit, 10) || 100\<close>. \<^verbatim>\<open>parseInt\<close> reads the string of its argument, which
  is \<^verbatim>\<open>"true"\<close> for the only truthy boolean.
\<close>

definition coerce_limit :: "JaegerQuery \<Rightarrow> JaegerQuery" where
  "coerce_limit query =
     (case limit query of
        Some (LStr s) \<Rightarrow>
          if s \<noteq> [] then query\<lparr>limit := Some (LNum (parseInt_or_100 s))\<rparr> else query
      | Some (LBool b) \<Rightarrow>
          if b then query\<lparr>limit := Some (LNum (parseInt_or_100 ''true''))\<rparr> else query
      | _ \<Rightarrow> query)"

text \<open>Lines 226-228: \<^verbatim>\<open>if (!query.limit) query.limit = 100\<close>.\<close>

definition default_limit :: "JaegerQuery \<Rightarrow> JaegerQuery" where
  "default_limit query =
     (if \<not> limit_truthy (limit query) then query\<lparr>limit := Some (LNum (Num 100))\<rparr> else query)"

text \<open>Line 232: the message of the error thrown for an unknown service.\<close>

definition invalid_service_message :: "string \<Rightarrow> string list \<Rightarrow> string" where
  \<open>invalid_service_message s known =
     ''Invalid service "'' @ s @ ''". Available services are: '' @ js_join '', '' known\<close>

text \<open>Lines 236-238.\<close>

definition fix_lookback :: "JaegerQuery \<Rightarrow> JaegerQuery" where
  "fix_lookback query =
     (case lookback query of
        None \<Rightarrow> query
      | Some l \<Rightarrow> if l \<noteq> [] \<and> \<not> lookback_test l then query\<lparr>lookback := Some ''1h''\<rparr> else query)"

text \<open>Lines 242-247: \<^verbatim>\<open>delete query.minDuration\<close>, \<^verbatim>\<open>delete query.maxDuration\<close>.\<close>

definition drop_minDuration :: "JaegerQuery \<Rightarrow> JaegerQuery" where
  "drop_minDuration query =
     (case minDuration query of
        None \<Rightarrow> query
      | Some d \<Rightarrow> if d \<noteq> [] \<and> \<not> durationRegex_test d then query\<lparr>minDuration := None\<rparr> else query)"

definition drop_maxDuration :: "JaegerQuery \<Rightarrow> JaegerQuery" where
  "drop_maxDuration query =
     (case maxDuration query of
        None \<Rightarrow> query
      | Some d \<Rightarrow> if d \<noteq> [] \<and> \<not> durationRegex_test d then query\<lparr>maxDuration := None\<rparr> else query)"

text \<open>
  Lines 252-262, the filter's predicate. \<^verbatim>\<open>const [key, value] = pair.split('=')\<close> takes the
  first two pieces; \<open>value\<close> is \<^verbatim>\<open>undefined\<close> when there is one piece only.
  \<^verbatim>\<open>this.serviceRoutes[s]?.includes(value) || false\<close> is false when the dictionary has no
  entry for \<open>s\<close>.
\<close>

definition valid_tag :: "AITranslationService \<Rightarrow> JaegerQuery \<Rightarrow> string \<Rightarrow> bool" where
  "valid_tag this query pair =
     (case js_split (CHR ''='') pair of
        [] \<Rightarrow> False
      | [key] \<Rightarrow> False
      | key # value # _ \<Rightarrow>
          if key = [] \<or> value = [] then False
          else (case service query of
                  None \<Rightarrow> tag_test pair
                | Some s \<Rightarrow>
                    if key = ''http.route'' \<and> s \<noteq> []
                    then (case serviceRoutes this s of
                            None \<Rightarrow> False
                          | Some routes \<Rightarrow> value \<in> set routes)
                    else tag_test pair))"

text \<open>Lines 250-264: \<^verbatim>\<open>query.tags = validTags.join(' ') || undefined\<close>.\<close>

definition filter_tags :: "AITranslationService \<Rightarrow> JaegerQuery \<Rightarrow> JaegerQuery" where
  "filter_tags this query =
     (case tags query of
        None \<Rightarrow> query
      | Some t \<Rightarrow>
          if t = [] then query
          else (let tagPairs = js_split (CHR '' '') t;
                    validTags = filter (valid_tag this query) tagPairs;
                    joined = js_join '' '' validTags
                in query\<lparr>tags := (if joined = [] then None else Some joined)\<rparr>))"

text \<open>Line 231: \<^verbatim>\<open>query.service && !this.services.includes(query.service)\<close>, giving
  the offending name.\<close>

definition unknown_service :: "AITranslationService \<Rightarrow> JaegerQuery \<Rightarrow> string option" where
  "unknown_service this query =
     (case service query of
        None \<Rightarrow> None
      | Some s \<Rightarrow> if s \<noteq> [] \<and> s \<notin> set (services this) then Some s else None)"

text \<open>
  \<^verbatim>\<open>validateQuery\<close>, lines 221-267, in the order of the source. The only exit with an
  error is the unknown service (lines 231-233).
\<close>

definition validateQuery :: "AITranslationService \<Rightarrow> JaegerQuery \<Rightarrow> error + JaegerQuery" where
  "validateQuery this query =
     (let query = default_limit (coerce_limit query)
      in case unknown_service this query of
           Some s \<Rightarrow> Inl (Error (invalid_service_message s (services this)))
         | None \<Rightarrow>
             Inr (filter_tags this (drop_maxDuration (drop_minDuration (fix_lookback query)))))"


section \<open>The prompt\<close>

text \<open>
  \<^verbatim>\<open>AITranslationService.SYSTEM_PROMPT\<close> (lines 13-97), line by line: the template literal
  starts with a line break, and every line ends with one.
\<close>

definition SYSTEM_PROMPT_lines :: "string list" where
  \<open>SYSTEM_PROMPT_lines =
     ['''',
      ''### Instructions:'',
      ''Your task is to convert a natural language question into a Jaeger trace search query, formatted as a JSON object that adheres to the following interface:'',
      ''- **Fields**:'',
      ''  - service: string (must be one of the available services listed below)'',
      ''  - tags: string (logfmt format, e.g., "error=true http.status_code=500 http.method=GET http.route=/v1/login")'',
      ''  - lookback: string (time window, e.g., "1h", "24h", "7d")'',
      ''  - limit: number (integer, e.g., 100, 20)'',
      ''  - minDuration: string (e.g., "100ms", "1s", "2m")'',
      ''  - maxDuration: string (e.g., "5s", "1m", "10m")'',
      '''',
      ''### Available Services and Routes:'',
      ''{services}'',
      '''',
      ''### Rules:'',
      ''- Analyze the question carefully, word by word, to map terms to the correct fields.'',
      ''- Use only the fields listed above; do not invent new fields like "outcome" or "status".'',
      ''- For tags, use common HTTP or error-related keys (e.g., "error", "http.status_code", "http.method", "http.route") when applicable.'',
      ''- When specifying routes, use the exact route from the available routes list in the format "http.route=/exact/route".'',
      ''- If a term doesn't clearly map to a field, omit it or include it in "tags" if it fits logfmt format.'',
      ''- If no limit is specified, default to 100.'',
      ''- The service field MUST be one of the available services listed above.'',
      ''- IMPORTANT: Respond with ONLY the JSON object. Do not include any explanatory text, notes, or comments.'',
      ''- The response must be a valid JSON object that can be parsed directly.'',
      '''',
      ''### Examples:'',
      '''',
      ''#### Input: "What are the slowest traces for the payment service in the last 2 hours?"'',
      ''#### Output:'',
      ''{'',
      ''  "service": "payment",'',
      ''  "lookback": "2h",'',
      ''  "minDuration": "1s",'',
      ''  "limit": 100'',
      ''}'',
      '''',
      ''#### Input: "Show me traces for the auth-service with route /v1/login over the past 24 hours."'',
      ''#### Output:'',
      ''{'',
      ''  "service": "auth-service",'',
      ''  "tags": "http.route=/v1/login",'',
      ''  "lookback": "24h",'',
      ''  "limit": 100'',
      ''}'',
      '''',
      ''#### Input: "Find traces for the order service that failed with status 500 in the last 1 hour."'',
      ''#### Output:'',
      ''{'',
      ''  "service": "order",'',
      ''  "tags": "error=true http.status_code=500",'',
      ''  "lookback": "1h",'',
      ''  "limit": 100'',
      ''}'',
      '''',
      ''#### Input: "What traces in the payment service took between 500ms and 2s in the last 3 days?"'',
      ''#### Output:'',
      ''{'',
      ''  "service": "payment",'',
      ''  "lookback": "3d",'',
      ''  "minDuration": "500ms",'',
      ''  "maxDuration": "2s",'',
      ''  "limit": 100'',
      ''}'',
      '''',
      ''#### Input: "Show traces for the checkout service with GET requests that failed yesterday."'',
      ''#### Output:'',
      ''{'',
      ''  "service": "checkout",'',
      ''  "tags": "http.method=GET error=true",'',
      ''  "lookback": "24h",'',
      ''  "limit": 100'',
      ''}'',
      '''',
      ''#### Input: "Give me the 50 slowest traces for the boatcruize-backend service."'',
      ''#### Output:'',
      ''{'',
      ''  "service": "boatcruize-backend",'',
      ''  "minDuration": "1s",'',
      ''  "limit": 50'',
      ''}'',
      '''',
      ''### Input:'',
      ''"{query}"'',
      ''### Output:'']\<close>

definition SYSTEM_PROMPT :: string where
  "SYSTEM_PROMPT = concat (map (\<lambda>l. l @ [CHR 0x0A]) SYSTEM_PROMPT_lines)"

subsection \<open>\<^verbatim>\<open>String.prototype.replace\<close> with a string pattern\<close>

text \<open>The first occurrence of \<open>pat\<close> in \<open>s\<close>: the text preceding it and the text following it.\<close>

fun find_first :: "string \<Rightarrow> string \<Rightarrow> (string \<times> string) option" where
  "find_first pat [] = (if pat = [] then Some ([], []) else None)"
| "find_first pat (c # cs) =
     (if take (length pat) (c # cs) = pat then Some ([], drop (length pat) (c # cs))
      else (case find_first pat cs of
              None \<Rightarrow> None
            | Some (preceding, following) \<Rightarrow> Some (c # preceding, following)))"

text \<open>
  \<^verbatim>\<open>GetSubstitution\<close>: the replacement text is itself a template. For a string pattern
  (no capture groups) \<^verbatim>\<open>$$\<close> stands for \<^verbatim>\<open>$\<close>, \<^verbatim>\<open>$&\<close> for the matched text, \<^verbatim>\<open>$`\<close>
  (\<open>CHR 0x60\<close>) for the text preceding the match and \<^verbatim>\<open>$'\<close> (\<open>CHR 0x27\<close>) for the text
  following it; any other \<^verbatim>\<open>$\<close> is kept as it is.
\<close>

fun GetSubstitution :: "string \<Rightarrow> string \<Rightarrow> string \<Rightarrow> string \<Rightarrow> string" where
  "GetSubstitution matched preceding following [] = []"
| "GetSubstitution matched preceding following [c] = [c]"
| "GetSubstitution matched preceding following (c # d # r) =
     (if c = CHR ''$'' \<and> d = CHR ''$'' then CHR ''$'' # GetSubstitution matched preceding following r
      else if c = CHR ''$'' \<and> d = CHR ''&'' then matched @ GetSubstitution matched preceding following r
      else if c = CHR ''$'' \<and> d = CHR 0x60 then preceding @ GetSubstitution matched preceding following r
      else if c = CHR ''$'' \<and> d = CHR 0x27 then following @ GetSubstitution matched preceding following r
      else c # GetSubstitution matched preceding following (d # r))"

text \<open>\<^verbatim>\<open>s.replace(pat, replacement)\<close>: only the first occurrence is replaced, and \<open>s\<close>
  is returned as it is when there is none.\<close>

definition js_replace :: "string \<Rightarrow> string \<Rightarrow> string \<Rightarrow> string" where
  "js_replace pat replacement s =
     (case find_first pat s of
        None \<Rightarrow> s
      | Some (preceding, following) \<Rightarrow> preceding @ GetSubstitution pat preceding following replacement @ following)"

text \<open>Lines 175-177: \<^verbatim>\<open>template.replace('{services}', servicesInfo).replace('{query}', query)\<close>.\<close>

definition render :: "string \<Rightarrow> string \<Rightarrow> string \<Rightarrow> string" where
  "render template servicesInfo query =
     js_replace ''{query}'' query (js_replace ''{services}'' servicesInfo template)"

section \<open>\<^verbatim>\<open>JSON.parse\<close>\<close>

text \<open>
  The values \<^verbatim>\<open>JSON.parse\<close> returns. An object is the list of its members in the
  order of their first appearance; a repeated key keeps its place and takes the later
  value, as property definition does.
\<close>

datatype json =
    JNull
  | JBool bool
  | JNumber number
  | JString string
  | JArray "json list"
  | JObject "(string \<times> json) list"

datatype token =
    LBrace | RBrace | LBracket | RBracket | Colon | Comma
  | TString string | TNumber number | TTrue | TFalse | TNull

subsection \<open>Tokens\<close>

text \<open>JSON white space: space, TAB, LF, CR.\<close>

definition is_json_ws :: "char \<Rightarrow> bool" where
  "is_json_ws c = (c \<in> set [CHR 0x20, CHR 0x09, CHR 0x0A, CHR 0x0D])"

definition hex_value :: "char \<Rightarrow> nat option" where
  "hex_value c =
     (if is_digit c then Some (of_char c - 48)
      else if c \<in> set ''abcdef'' then Some (of_char c - 87)
      else if c \<in> set ''ABCDEF'' then Some (of_char c - 55)
      else None)"

text \<open>The character a one-letter escape stands for.\<close>

definition escape_char :: "char \<Rightarrow> char option" where
  \<open>escape_char e =
     (if e = CHR 0x22 then Some (CHR 0x22)
      else if e = CHR 0x5C then Some (CHR 0x5C)
      else if e = CHR ''/'' then Some (CHR ''/'')
      else if e = CHR ''b'' then Some (CHR 0x08)
      else if e = CHR ''f'' then Some (CHR 0x0C)
      else if e = CHR ''n'' then Some (CHR 0x0A)
      else if e = CHR ''r'' then Some (CHR 0x0D)
      else if e = CHR ''t'' then Some (CHR 0x09)
      else None)\<close>

text \<open>
  \<^verbatim>\<open>\uXXXX\<close>: the code unit with that number. A code unit above U+00FF is outside the
  strings of this model (see the first section), so a text with such an escape has no
  value here, although \<^verbatim>\<open>JSON.parse\<close> accepts it.
\<close>

definition unicode_escape :: "char \<Rightarrow> char \<Rightarrow> char \<Rightarrow> char \<Rightarrow> char option" where
  "unicode_escape h1 h2 h3 h4 =
     (case (hex_value h1, hex_value h2, hex_value h3, hex_value h4) of
        (Some a, Some b, Some c, Some d) \<Rightarrow>
          (let n = ((a * 16 + b) * 16 + c) * 16 + d
           in if n < 256 then Some (char_of n) else None)
      | _ \<Rightarrow> None)"

text \<open>
  The rest of a string literal, after its opening quote: the characters up to the closing
  quote, with the escapes decoded, and the number of characters read, the closing quote
  included. \<open>acc\<close> holds the characters decoded so far, last one first, and \<open>n\<close> counts
  the characters read so far. A control character (below U+0020) may not stand in a
  string literal.
\<close>

fun lex_string :: "string \<Rightarrow> nat \<Rightarrow> string \<Rightarrow> (string \<times> nat) option" where
  "lex_string acc n [] = None"
| "lex_string acc n (c # cs) =
     (if c = CHR 0x22 then Some (rev acc, Suc n)
      else if c = CHR 0x5C then
        (case cs of
           [] \<Rightarrow> None
         | e # cs1 \<Rightarrow>
             if e = CHR ''u'' then
               (case cs1 of
                  h1 # h2 # h3 # h4 # cs2 \<Rightarrow>
                    (case unicode_escape h1 h2 h3 h4 of
                       None \<Rightarrow> None
                     | Some u \<Rightarrow> lex_string (u # acc) (n + 6) cs2)
                | _ \<Rightarrow> None)
             else
               (case escape_char e of
                  None \<Rightarrow> None
                | Some u \<Rightarrow> lex_string (u # acc) (n + 2) cs1))
      else if (of_char c :: nat) < 32 then None
      else lex_string (c # acc) (Suc n) cs)"

text \<open>
  The value of a number literal, \<^verbatim>\<open>-? (0 | [1-9][0-9]*) (. [0-9]+)? ([eE] [+-]? [0-9]+)?\<close>,
  and \<open>None\<close> for a text that is not one. The result is the double nearest to the
  decimal value, which is what \<open>Num\<close> of that value stands for.
\<close>

definition number_literal :: "string \<Rightarrow> number option" where
  "number_literal s =
     (let neg = (case s of [] \<Rightarrow> False | c # _ \<Rightarrow> c = CHR ''-'');
          s1 = (if neg then tl s else s);
          ip = takeWhile is_digit s1;
          r1 = dropWhile is_digit s1;
          has_frac = (case r1 of [] \<Rightarrow> False | c # _ \<Rightarrow> c = CHR ''.'');
          fp = (if has_frac then takeWhile is_digit (tl r1) else []);
          r2 = (if has_frac then dropWhile is_digit (tl r1) else r1);
          has_exp = (case r2 of [] \<Rightarrow> False | c # _ \<Rightarrow> c = CHR ''e'' \<or> c = CHR ''E'');
          r3 = (if has_exp then tl r2 else r2);
          eneg = (case r3 of [] \<Rightarrow> False | c # _ \<Rightarrow> c = CHR ''-'');
          r4 = (case r3 of [] \<Rightarrow> [] | c # r \<Rightarrow> if has_exp \<and> (c = CHR ''-'' \<or> c = CHR ''+'') then r else r3);
          ep = (if has_exp then takeWhile is_digit r4 else []);
          r5 = (if has_exp then dropWhile is_digit r4 else r4);
          mantissa = (of_nat (digits_value (ip @ fp)) :: rat) / 10 ^ length fp;
          magnitude = (if eneg then mantissa / 10 ^ digits_value ep
                       else mantissa * 10 ^ digits_value ep)
      in if ip = [] \<or> (hd ip = CHR ''0'' \<and> length ip > 1) \<or> (has_frac \<and> fp = []) \<or>
            (has_exp \<and> ep = []) \<or> r5 \<noteq> []
         then None
         else Some (Num (if neg then - magnitude else magnitude)))"

definition is_number_char :: "char \<Rightarrow> bool" where
  "is_number_char c = (c \<in> set ''+-.0123456789eE'')"

text \<open>
  The tokens of a text. A number token is the longest run of characters that can stand
  in a number literal; a valid text never has two such runs side by side, so the whole
  run has to be one literal.
\<close>

fun lex :: "string \<Rightarrow> token list option" where
  "lex [] = Some []"
| "lex (c # cs) =
     (if is_json_ws c then lex cs
      else if c = CHR ''{'' then map_option (Cons LBrace) (lex cs)
      else if c = CHR ''}'' then map_option (Cons RBrace) (lex cs)
      else if c = CHR ''['' then map_option (Cons LBracket) (lex cs)
      else if c = CHR '']'' then map_option (Cons RBracket) (lex cs)
      else if c = CHR '':'' then map_option (Cons Colon) (lex cs)
      else if c = CHR '','' then map_option (Cons Comma) (lex cs)
      else if c = CHR 0x22 then
        (case lex_string [] 0 cs of
           None \<Rightarrow> None
         | Some (s, n) \<Rightarrow> map_option (Cons (TString s)) (lex (drop n cs)))
      else if is_number_char c then
        (case number_literal (c # takeWhile is_number_char cs) of
           None \<Rightarrow> None
         | Some v \<Rightarrow>
             map_option (Cons (TNumber v)) (lex (drop (length (takeWhile is_number_char cs)) cs)))
      else if take 4 (c # cs) = ''true'' then map_option (Cons TTrue) (lex (drop 3 cs))
      else if take 5 (c # cs) = ''false'' then map_option (Cons TFalse) (lex (drop 4 cs))
      else if take 4 (c # cs) = ''null'' then map_option (Cons TNull) (lex (drop 3 cs))
      else None)"

subsection \<open>Values\<close>

text \<open>
  The parser reads the tokens from left to right and keeps the containers that are
  still open on a stack: an array with its elements so far (last one first), an object
  with its members so far, or an object member whose key has been read.
\<close>

datatype frame =
    InArray "json list"
  | InObject "(string \<times> json) list"
  | InMember "(string \<times> json) list" string

text \<open>What the grammar allows next.\<close>

datatype expect =
    Value
  | ValueOrEnd
  | KeyOrEnd
  | Key
  | ColonNext
  | CommaOrEnd
  | Finished json

text \<open>A complete value goes to the innermost open container, or is the result.\<close>

definition deliver :: "json \<Rightarrow> frame list \<Rightarrow> (expect \<times> frame list) option" where
  "deliver v stack =
     (case stack of
        [] \<Rightarrow> Some (Finished v, [])
      | InArray xs # st \<Rightarrow> Some (CommaOrEnd, InArray (v # xs) # st)
      | InMember kvs k # st \<Rightarrow> Some (CommaOrEnd, InObject (AList.update k v kvs) # st)
      | InObject kvs # st \<Rightarrow> None)"

definition close_array :: "frame list \<Rightarrow> (expect \<times> frame list) option" where
  "close_array stack =
     (case stack of InArray xs # st \<Rightarrow> deliver (JArray (rev xs)) st | _ \<Rightarrow> None)"

definition close_object :: "frame list \<Rightarrow> (expect \<times> frame list) option" where
  "close_object stack =
     (case stack of InObject kvs # st \<Rightarrow> deliver (JObject kvs) st | _ \<Rightarrow> None)"

definition start_value :: "token \<Rightarrow> frame list \<Rightarrow> (expect \<times> frame list) option" where
  "start_value t stack =
     (case t of
        TString s \<Rightarrow> deliver (JString s) stack
      | TNumber n \<Rightarrow> deliver (JNumber n) stack
      | TTrue \<Rightarrow> deliver (JBool True) stack
      | TFalse \<Rightarrow> deliver (JBool False) stack
      | TNull \<Rightarrow> deliver JNull stack
      | LBracket \<Rightarrow> Some (ValueOrEnd, InArray [] # stack)
      | LBrace \<Rightarrow> Some (KeyOrEnd, InObject [] # stack)
      | _ \<Rightarrow> None)"

definition start_member :: "token \<Rightarrow> frame list \<Rightarrow> (expect \<times> frame list) option" where
  "start_member t stack =
     (case (t, stack) of
        (TString k, InObject kvs # st) \<Rightarrow> Some (ColonNext, InMember kvs k # st)
      | _ \<Rightarrow> None)"

definition parse_step :: "expect \<Rightarrow> frame list \<Rightarrow> token \<Rightarrow> (expect \<times> frame list) option" where
  "parse_step e stack t =
     (case e of
        Value \<Rightarrow> start_value t stack
      | ValueOrEnd \<Rightarrow> if t = RBracket then close_array stack else start_value t stack
      | KeyOrEnd \<Rightarrow> if t = RBrace then close_object stack else start_member t stack
      | Key \<Rightarrow> start_member t stack
      | ColonNext \<Rightarrow> if t = Colon then Some (Value, stack) else None
      | CommaOrEnd \<Rightarrow>
          if t = RBracket then close_array stack
          else if t = RBrace then close_object stack
          else if t = Comma then
            (case stack of
               InArray xs # st \<Rightarrow> Some (Value, stack)
             | InObject kvs # st \<Rightarrow> Some (Key, stack)
             | _ \<Rightarrow> None)
          else None
      | Finished v \<Rightarrow> None)"

fun parse_tokens :: "expect \<Rightarrow> frame list \<Rightarrow> token list \<Rightarrow> json option" where
  "parse_tokens e stack [] = (case e of Finished v \<Rightarrow> Some v | _ \<Rightarrow> None)"
| "parse_tokens e stack (t # ts) =
     (case parse_step e stack t of
        None \<Rightarrow> None
      | Some (e', stack') \<Rightarrow> parse_tokens e' stack' ts)"

text \<open>\<^verbatim>\<open>JSON.parse(text)\<close>; \<open>None\<close> is the \<^verbatim>\<open>SyntaxError\<close>.\<close>

definition JSON_parse :: "string \<Rightarrow> json option" where
  "JSON_parse text = (case lex text of None \<Rightarrow> None | Some ts \<Rightarrow> parse_tokens Value [] ts)"

section \<open>Extracting the JSON object from the response\<close>

text \<open>
  \<^verbatim>\<open>data.response.match(/\{[\s\S]*\}/)\<close>: the match starts at the first \<^verbatim>\<open>{\<close> and, the star
  being greedy, ends at the last \<^verbatim>\<open>}\<close> after it; there is no match when no \<^verbatim>\<open>}\<close> follows
  the first \<^verbatim>\<open>{\<close>.
\<close>

definition brace_match :: "string \<Rightarrow> string option" where
  "brace_match s =
     (case dropWhile (\<lambda>c. c \<noteq> CHR ''{'') s of
        [] \<Rightarrow> None
      | _ # inner \<Rightarrow>
          (case rev (dropWhile (\<lambda>c. c \<noteq> CHR ''}'') (rev inner)) of
             [] \<Rightarrow> None
           | m # ms \<Rightarrow> Some (CHR ''{'' # m # ms)))"

text \<open>
  Lines 199-210. The first \<^verbatim>\<open>JSON.parse\<close> takes the whole text; when it throws, the
  matched text is parsed, and a \<^verbatim>\<open>SyntaxError\<close> of that second call is not caught
  here.
\<close>

definition extract_json :: "string \<Rightarrow> error + json" where
  "extract_json response =
     (case JSON_parse response of
        Some result \<Rightarrow> Inr result
      | None \<Rightarrow>
          (case brace_match response of
             None \<Rightarrow> Inl (Error ''No valid JSON object found in the response'')
           | Some jsonMatch \<Rightarrow>
               (case JSON_parse jsonMatch of
                  Some result \<Rightarrow> Inr result
                | None \<Rightarrow> Inl SyntaxError)))"

section \<open>The network\<close>

text \<open>
  What a \<^verbatim>\<open>fetch\<close> resolves to: the status, the status text, and what \<^verbatim>\<open>response.json()\<close>
  gives (\<open>None\<close> when the body is not JSON and \<^verbatim>\<open>json()\<close> rejects). A \<^verbatim>\<open>fetch\<close> that rejects
  (connection refused, aborted by its \<^verbatim>\<open>AbortSignal.timeout\<close>) is the \<open>Inl\<close> of its error.
\<close>

datatype 'a response = Response (status: nat) (statusText: string) (body: "'a option")

text \<open>\<^verbatim>\<open>response.ok\<close>: the status is in the range 200-299.\<close>

definition ok :: "'a response \<Rightarrow> bool" where
  "ok r = (200 \<le> status r \<and> status r \<le> 299)"

text \<open>
  The requests the service sends:
  \<^item> \<open>GetHealth\<close>: \<^verbatim>\<open>GET http://localhost:11434/api/version\<close>, aborted after 5000 ms
    (lines 147-150);
  \<^item> \<open>GetServices\<close>: \<^verbatim>\<open>GET ${DEFAULT_API_ROOT}services\<close> (line 111);
  \<^item> \<open>GetOperations s\<close>: \<^verbatim>\<open>GET ${DEFAULT_API_ROOT}services/${encodeURIComponent(s)}/operations\<close>
    (line 130);
  \<^item> \<open>PostGenerate p\<close>: \<^verbatim>\<open>POST http://localhost:11434/api/generate\<close> with the body
    \<^verbatim>\<open>{model: 'llama3.1', prompt: p, stream: false}\<close>, aborted after 30000 ms
    (lines 182-189).
\<close>

datatype request = GetHealth | GetServices | GetOperations string | PostGenerate string

text \<open>What a call does that can be seen from outside, in order: its requests and the
  first argument of each \<^verbatim>\<open>console.log\<close> and \<^verbatim>\<open>console.error\<close>.\<close>

datatype event = Fetch request | ConsoleLog string | ConsoleError string

text \<open>
  The answers of the network during one call. The body of a metadata answer is its
  \<^verbatim>\<open>data\<close> field, a list of names (\<open>None\<close> when the field is missing or \<^verbatim>\<open>null\<close>); the body
  of a generation answer is its \<^verbatim>\<open>response\<close> field, a text.
\<close>

record world =
  health :: "error + unit response"
  service_list :: "error + string list option response"
  operations :: "string \<Rightarrow> error + string list option response"
  generation :: "string \<Rightarrow> error + string response"

section \<open>\<^verbatim>\<open>fetchServices\<close> and \<^verbatim>\<open>fetchServiceOperations\<close>\<close>

text \<open>\<^verbatim>\<open>data.data || []\<close>.\<close>

definition data_or_empty :: "string list option \<Rightarrow> string list" where
  "data_or_empty d = (case d of None \<Rightarrow> [] | Some names \<Rightarrow> names)"

text \<open>
  Lines 128-140, from the answer on: the routes of the service \<open>name\<close> are stored, and every
  failure (a rejected \<^verbatim>\<open>fetch\<close>, a status outside 200-299, a body that is not JSON) is
  caught, logged, and stored as no routes.
\<close>

definition fetchServiceOperations ::
  "world \<Rightarrow> AITranslationService \<Rightarrow> string \<Rightarrow> AITranslationService \<times> event list" where
  "fetchServiceOperations w this name =
     (let failed = (this\<lparr>serviceRoutes := (serviceRoutes this)(name \<mapsto> [])\<rparr>,
                    [ConsoleError (''Failed to fetch operations for '' @ name @ '':'')])
      in case operations w name of
           Inl e \<Rightarrow> failed
         | Inr response \<Rightarrow>
             if \<not> ok response then failed
             else (case body response of
                     None \<Rightarrow> failed
                   | Some data \<Rightarrow>
                       (this\<lparr>serviceRoutes := (serviceRoutes this)(name \<mapsto> data_or_empty data)\<rparr>,
                        [])))"

text \<open>
  Line 119, \<^verbatim>\<open>Promise.all(this.services.map(\<dots>))\<close>: every call sends its request before
  any answer is handled, so the requests come first, in the order of the list; the
  answers are handled here in the same order. No call rejects, so all of them are
  handled.
\<close>

fun settle_operations ::
  "world \<Rightarrow> AITranslationService \<Rightarrow> string list \<Rightarrow> AITranslationService \<times> event list" where
  "settle_operations w this [] = (this, [])"
| "settle_operations w this (s # ss) =
     (case fetchServiceOperations w this s of
        (this1, ev1) \<Rightarrow>
          (case settle_operations w this1 ss of
             (this2, ev2) \<Rightarrow> (this2, ev1 @ ev2)))"

definition services_failed_message :: string where
  "services_failed_message = ''Failed to fetch available services. Please try again later.''"

text \<open>Lines 109-126: the result (the error thrown, or the list returned), the service
  afterwards, and the events.\<close>

definition fetchServices ::
  "world \<Rightarrow> AITranslationService \<Rightarrow> (error + string list) \<times> AITranslationService \<times> event list" where
  "fetchServices w this =
     (let failed = (Inl (Error services_failed_message), this,
                    [Fetch GetServices, ConsoleError ''Failed to fetch services:''])
      in case service_list w of
           Inl e \<Rightarrow> failed
         | Inr response \<Rightarrow>
             if \<not> ok response then failed
             else (case body response of
                     None \<Rightarrow> failed
                   | Some data \<Rightarrow>
                       (let this1 = this\<lparr>services := data_or_empty data\<rparr>
                        in case settle_operations w this1 (services this1) of
                             (this2, ev) \<Rightarrow>
                               (Inr (services this2), this2,
                                Fetch GetServices #
                                map (\<lambda>s. Fetch (GetOperations s)) (services this1) @ ev))))"

section \<open>\<^verbatim>\<open>translateQuery\<close>\<close>

definition unavailable_message :: string where
  "unavailable_message =
     ''Ollama service is not available. Please ensure Ollama is installed and running on port 11434. '' @
     ''Visit https://ollama.ai for installation instructions.''"

text \<open>Lines 146-159: whatever goes wrong in the health check is replaced by the same
  error.\<close>

definition health_check :: "world \<Rightarrow> error + unit" where
  "health_check w =
     (case health w of
        Inl e \<Rightarrow> Inl (Error unavailable_message)
      | Inr healthCheck \<Rightarrow>
          if \<not> ok healthCheck then Inl (Error unavailable_message) else Inr ())"

text \<open>Lines 162-164: the services are fetched only when none is loaded.\<close>

definition ensure_loaded ::
  "world \<Rightarrow> AITranslationService \<Rightarrow> (error + unit) \<times> AITranslationService \<times> event list" where
  "ensure_loaded w this =
     (if services this = [] then
        (case fetchServices w this of
           (Inl e, this1, ev) \<Rightarrow> (Inl e, this1, ev)
         | (Inr names, this1, ev) \<Rightarrow> (Inr (), this1, ev))
      else (Inr (), this, []))"

text \<open>\<^verbatim>\<open>this.serviceRoutes[s].join(', ')\<close>: a \<^verbatim>\<open>TypeError\<close> when the dictionary has no entry
  for \<open>s\<close>, since \<^verbatim>\<open>join\<close> is then read from \<^verbatim>\<open>undefined\<close>.\<close>

definition routes_text :: "AITranslationService \<Rightarrow> string \<Rightarrow> error + string" where
  "routes_text this s =
     (case serviceRoutes this s of
        None \<Rightarrow> Inl TypeError
      | Some routes \<Rightarrow> Inr (js_join '', '' routes))"

text \<open>Lines 169-171: one line per service, in the order of the list; the first failure
  ends the \<^verbatim>\<open>map\<close>.\<close>

fun service_lines :: "AITranslationService \<Rightarrow> string list \<Rightarrow> error + string list" where
  "service_lines this [] = Inr []"
| "service_lines this (s # ss) =
     (case routes_text this s of
        Inl e \<Rightarrow> Inl e
      | Inr routes \<Rightarrow>
          (case service_lines this ss of
             Inl e \<Rightarrow> Inl e
           | Inr ls \<Rightarrow> Inr ((s @ '' (routes: '' @ routes @ '')'') # ls)))"

text \<open>Lines 169-171: the view of all the services.\<close>

definition full_view :: "AITranslationService \<Rightarrow> error + string" where
  "full_view this =
     (case service_lines this (services this) of
        Inl e \<Rightarrow> Inl e
      | Inr ls \<Rightarrow> Inr (js_join [CHR 0x0A] ls))"

text \<open>
  Lines 167-171. \<open>selectedService\<close> is \<^verbatim>\<open>context?.selectedService\<close>: \<open>None\<close> when there is no
  context or no selected service; the empty string is falsy and gives the full view.
\<close>

definition servicesInfo :: "AITranslationService \<Rightarrow> string option \<Rightarrow> error + string" where
  "servicesInfo this selectedService =
     (case selectedService of
        None \<Rightarrow> full_view this
      | Some s \<Rightarrow>
          if s = [] then full_view this
          else (case routes_text this s of
                  Inl e \<Rightarrow> Inl e
                | Inr routes \<Rightarrow>
                    Inr (''Selected service: '' @ s @ [CHR 0x0A] @ ''Available routes: '' @ routes)))"

text \<open>Lines 182-195: the generation request and the \<^verbatim>\<open>response\<close> field of its answer. A
  rejected \<^verbatim>\<open>fetch\<close> is thrown as it is.\<close>

definition generate :: "world \<Rightarrow> string \<Rightarrow> error + string" where
  "generate w prompt =
     (case generation w prompt of
        Inl e \<Rightarrow> Inl e
      | Inr response \<Rightarrow>
          if \<not> ok response then Inl (Error (''API request failed: '' @ statusText response))
          else (case body response of
                  None \<Rightarrow> Inl SyntaxError
                | Some response_text \<Rightarrow> Inr response_text))"

text \<open>
  The parsed response, read as the \<^verbatim>\<open>JaegerQuery\<close> that \<^verbatim>\<open>validateQuery\<close> takes it for:
  the six fields of the interface, the other members left aside. A value that is not an
  object, or that holds something else than a string in a string field or something
  else than a scalar in \<open>limit\<close>, has no such reading.
\<close>

definition string_field :: "(string \<times> json) list \<Rightarrow> string \<Rightarrow> string option option" where
  "string_field members name =
     (case map_of members name of
        None \<Rightarrow> Some None
      | Some (JString s) \<Rightarrow> Some (Some s)
      | Some _ \<Rightarrow> None)"

definition limit_field :: "(string \<times> json) list \<Rightarrow> limit_value option option" where
  "limit_field members =
     (case map_of members ''limit'' of
        None \<Rightarrow> Some None
      | Some JNull \<Rightarrow> Some (Some LNull)
      | Some (JBool b) \<Rightarrow> Some (Some (LBool b))
      | Some (JNumber n) \<Rightarrow> Some (Some (LNum n))
      | Some (JString s) \<Rightarrow> Some (Some (LStr s))
      | Some _ \<Rightarrow> None)"

definition query_of_json :: "json \<Rightarrow> JaegerQuery option" where
  "query_of_json v =
     (case v of
        JObject members \<Rightarrow>
          (case (string_field members ''service'', string_field members ''tags'',
                 string_field members ''lookback'', limit_field members,
                 string_field members ''minDuration'', string_field members ''maxDuration'') of
             (Some s, Some t, Some lb, Some l, Some mn, Some mx) \<Rightarrow>
               Some \<lparr>service = s, tags = t, lookback = lb, limit = l,
                     minDuration = mn, maxDuration = mx\<rparr>
           | _ \<Rightarrow> None)
      | _ \<Rightarrow> None)"

text \<open>Line 214, \<^verbatim>\<open>this.validateQuery(result)\<close>.\<close>

definition validate_result :: "AITranslationService \<Rightarrow> json \<Rightarrow> error + JaegerQuery" where
  "validate_result this result =
     (case query_of_json result of
        None \<Rightarrow> Inl NotAJaegerQuery
      | Some query \<Rightarrow> validateQuery this query)"

text \<open>Lines 215-218: the outer \<^verbatim>\<open>catch\<close> logs and throws the same error again.\<close>

definition rethrow ::
  "error \<Rightarrow> AITranslationService \<Rightarrow> event list \<Rightarrow>
   (error + JaegerQuery) \<times> AITranslationService \<times> event list" where
  "rethrow e this ev = (Inl e, this, ev @ [ConsoleError ''AI translation failed:''])"

text \<open>Lines 196-214: the response text is parsed and the result validated.\<close>

definition parse_and_validate ::
  "AITranslationService \<Rightarrow> event list \<Rightarrow> string \<Rightarrow>
   (error + JaegerQuery) \<times> AITranslationService \<times> event list" where
  "parse_and_validate this ev response_text =
     (let ev1 = ev @ [ConsoleLog ''Raw response data:'']
      in case extract_json response_text of
           Inl e \<Rightarrow> rethrow e this ev1
         | Inr result \<Rightarrow>
             (let ev2 = ev1 @ [ConsoleLog ''Parsed result:'']
              in case validate_result this result of
                   Inl e \<Rightarrow> rethrow e this ev2
                 | Inr q \<Rightarrow> (Inr q, this, ev2)))"

text \<open>Lines 173-195: the prompt is rendered and sent.\<close>

definition request_generation ::
  "world \<Rightarrow> AITranslationService \<Rightarrow> event list \<Rightarrow> string \<Rightarrow> string \<Rightarrow>
   (error + JaegerQuery) \<times> AITranslationService \<times> event list" where
  "request_generation w this ev info query =
     (let prompt = render SYSTEM_PROMPT info query;
          ev1 = ev @ [ConsoleLog ''Request body:'', Fetch (PostGenerate prompt)]
      in case generate w prompt of
           Inl e \<Rightarrow> rethrow e this ev1
         | Inr response_text \<Rightarrow> parse_and_validate this ev1 response_text)"

text \<open>
  \<^verbatim>\<open>translateQuery(query, context)\<close>, lines 142-219: the result (the error thrown, or the
  query returned), the service afterwards, and the events of the call in order.
\<close>

definition translateQuery ::
  "world \<Rightarrow> AITranslationService \<Rightarrow> string \<Rightarrow> string option \<Rightarrow>
   (error + JaegerQuery) \<times> AITranslationService \<times> event list" where
  "translateQuery w this query selectedService =
     (let ev0 = [ConsoleLog ''Starting translation for query:'', Fetch GetHealth]
      in case health_check w of
           Inl e \<Rightarrow> rethrow e this ev0
         | Inr _ \<Rightarrow>
             (case ensure_loaded w this of
                (Inl e, this1, ev1) \<Rightarrow> rethrow e this1 (ev0 @ ev1)
              | (Inr _, this1, ev1) \<Rightarrow>
                  (case servicesInfo this1 selectedService of
                     Inl e \<Rightarrow> rethrow e this1 (ev0 @ ev1)
                   | Inr info \<Rightarrow> request_generation w this1 (ev0 @ ev1) info query)))"

text \<open>The requests among the events of a call.\<close>

fun requests :: "event list \<Rightarrow> request list" where
  "requests [] = []"
| "requests (Fetch r # ev) = r # requests ev"
| "requests (_ # ev) = requests ev"

definition is_generate :: "request \<Rightarrow> bool" where
  "is_generate r = (case r of PostGenerate p \<Rightarrow> True | _ \<Rightarrow> False)"

section \<open>Inputs used in the examples\<close>

definition empty_query :: JaegerQuery where
  "empty_query =
     \<lparr>service = None, tags = None, lookback = None, limit = None,
      minDuration = None, maxDuration = None\<rparr>"

text \<open>A service that has loaded two services, one of them with one route.\<close>

definition loaded_service :: AITranslationService where
  "loaded_service =
     \<lparr>services = [''auth-service'', ''payment''],
      serviceRoutes = [''auth-service'' \<mapsto> [''/v1/login''], ''payment'' \<mapsto> []]\<rparr>"

section \<open>Notions used to state the properties of the tag filter\<close>

text \<open>The key of a tag pair is its text before the first \<^verbatim>\<open>=\<close>; its value is the text
  between the first \<^verbatim>\<open>=\<close> and the second one (or the end), and a pair with no \<^verbatim>\<open>=\<close> has
  no value.\<close>

definition pair_key :: "string \<Rightarrow> string" where
  "pair_key pair = takeWhile (\<lambda>c. c \<noteq> CHR ''='') pair"

definition pair_value :: "string \<Rightarrow> string option" where
  "pair_value pair =
     (case dropWhile (\<lambda>c. c \<noteq> CHR ''='') pair of
        [] \<Rightarrow> None
      | _ # r \<Rightarrow> Some (takeWhile (\<lambda>c. c \<noteq> CHR ''='') r))"

text \<open>
  The pairs that survive, given the service field \<open>svc\<close> of the query: key and value
  are not empty, and either the key is \<^verbatim>\<open>http.route\<close>, the service field is a non-empty
  string and the value is one of the routes recorded for that service, or (in every
  other case) the key consists of letters, digits, dots, underscores and hyphens.
\<close>

definition kept_pair :: "AITranslationService \<Rightarrow> string option \<Rightarrow> string \<Rightarrow> bool" where
  "kept_pair this svc pair =
     (case pair_value pair of
        None \<Rightarrow> False
      | Some v \<Rightarrow>
          pair_key pair \<noteq> [] \<and> v \<noteq> [] \<and>
          (case svc of
             None \<Rightarrow> list_all is_tag_key_char (pair_key pair)
           | Some s \<Rightarrow>
               if pair_key pair = ''http.route'' \<and> s \<noteq> []
               then (case serviceRoutes this s of
                       None \<Rightarrow> False
                     | Some routes \<Rightarrow> v \<in> set routes)
               else list_all is_tag_key_char (pair_key pair)))"

section \<open>Notions used to state the properties of the extraction\<close>

text \<open>
  The span that claim C6 describes, to be compared with \<open>brace_match\<close>: from the first
  \<^verbatim>\<open>{\<close> through the \<^verbatim>\<open>}\<close> that closes it, counting the braces opened in between.
  \<open>closing_brace d s\<close> is the text of \<open>s\<close> up to the \<^verbatim>\<open>}\<close> that closes \<open>d + 1\<close> open
  braces.
\<close>

fun closing_brace :: "nat \<Rightarrow> string \<Rightarrow> string option" where
  "closing_brace d [] = None"
| "closing_brace d (c # cs) =
     (if c = CHR ''}'' then
        (case d of 0 \<Rightarrow> Some [c] | Suc d' \<Rightarrow> map_option (Cons c) (closing_brace d' cs))
      else if c = CHR ''{'' then map_option (Cons c) (closing_brace (Suc d) cs)
      else map_option (Cons c) (closing_brace d cs))"

definition matching_brace_span :: "string \<Rightarrow> string option" where
  "matching_brace_span s =
     (case dropWhile (\<lambda>c. c \<noteq> CHR ''{'') s of
        [] \<Rightarrow> None
      | _ # inner \<Rightarrow> map_option (Cons (CHR ''{'')) (closing_brace 0 inner))"

section \<open>Notions used to state the properties of a call\<close>

text \<open>The three parts of what \<open>translateQuery\<close> and \<open>fetchServices\<close> give.\<close>

definition result_of :: "'r \<times> AITranslationService \<times> event list \<Rightarrow> 'r" where
  "result_of c = fst c"

definition service_after :: "'r \<times> AITranslationService \<times> event list \<Rightarrow> AITranslationService" where
  "service_after c = fst (snd c)"

definition events_of :: "'r \<times> AITranslationService \<times> event list \<Rightarrow> event list" where
  "events_of c = snd (snd c)"

text \<open>A request fails when its \<^verbatim>\<open>fetch\<close> rejects (no connection, or the time limit of the
  request is exceeded) or answers with a status outside 200-299; a metadata request
  also fails when its body is not JSON.\<close>

definition health_failed :: "world \<Rightarrow> bool" where
  "health_failed w = (case health w of Inl e \<Rightarrow> True | Inr r \<Rightarrow> \<not> ok r)"

definition service_list_failed :: "world \<Rightarrow> bool" where
  "service_list_failed w =
     (case service_list w of Inl e \<Rightarrow> True | Inr r \<Rightarrow> \<not> ok r \<or> body r = None)"

definition operations_failed :: "world \<Rightarrow> string \<Rightarrow> bool" where
  "operations_failed w s =
     (case operations w s of Inl e \<Rightarrow> True | Inr r \<Rightarrow> \<not> ok r \<or> body r = None)"

text \<open>The names a successful service-list answer carries.\<close>

definition listed_services :: "world \<Rightarrow> string list" where
  "listed_services w =
     (case service_list w of
        Inl e \<Rightarrow> []
      | Inr r \<Rightarrow> (case body r of None \<Rightarrow> [] | Some d \<Rightarrow> data_or_empty d))"

section \<open>Worlds used in the examples\<close>

definition fresh_service :: AITranslationService where
  "fresh_service = \<lparr>services = [], serviceRoutes = Map.empty\<rparr>"

text \<open>
  Everything answers, except the operations of \<^verbatim>\<open>payment\<close> (status 500). The generation
  answers with a JSON object wrapped in prose, whatever the prompt.
\<close>

definition example_world :: world where
  \<open>example_world =
     \<lparr>health = Inr (Response 200 ''OK'' (Some ())),
      service_list = Inr (Response 200 ''OK'' (Some (Some [''auth-service'', ''payment'']))),
      operations = (\<lambda>s. if s = ''auth-service''
                          then Inr (Response 200 ''OK'' (Some (Some [''/v1/login''])))
                          else Inr (Response 500 ''Internal Server Error'' None)),
      generation = (\<lambda>p. Inr (Response 200 ''OK''
        (Some ''Here you go: {"service":"payment","lookback":"2h","minDuration":"1s","limit":100}'')))\<rparr>\<close>

section \<open>Properties of \<^verbatim>\<open>validateQuery\<close>\<close>

subsection \<open>Each step touches its own field\<close>

lemma coerce_limit_fields [simp]:
  "service (coerce_limit q) = service q" "tags (coerce_limit q) = tags q"
  "lookback (coerce_limit q) = lookback q" "minDuration (coerce_limit q) = minDuration q"
  "maxDuration (coerce_limit q) = maxDuration q"
  by (simp_all add: coerce_limit_def split: option.splits limit_value.splits)

lemma default_limit_fields [simp]:
  "service (default_limit q) = service q" "tags (default_limit q) = tags q"
  "lookback (default_limit q) = lookback q" "minDuration (default_limit q) = minDuration q"
  "maxDuration (default_limit q) = maxDuration q"
  by (simp_all add: default_limit_def)

lemma fix_lookback_fields [simp]:
  "service (fix_lookback q) = service q" "tags (fix_lookback q) = tags q"
  "limit (fix_lookback q) = limit q" "minDuration (fix_lookback q) = minDuration q"
  "maxDuration (fix_lookback q) = maxDuration q"
  by (simp_all add: fix_lookback_def split: option.splits)

lemma drop_minDuration_fields [simp]:
  "service (drop_minDuration q) = service q" "tags (drop_minDuration q) = tags q"
  "limit (drop_minDuration q) = limit q" "lookback (drop_minDuration q) = lookback q"
  "maxDuration (drop_minDuration q) = maxDuration q"
  by (simp_all add: drop_minDuration_def split: option.splits)

lemma drop_maxDuration_fields [simp]:
  "service (drop_maxDuration q) = service q" "tags (drop_maxDuration q) = tags q"
  "limit (drop_maxDuration q) = limit q" "lookback (drop_maxDuration q) = lookback q"
  "minDuration (drop_maxDuration q) = minDuration q"
  by (simp_all add: drop_maxDuration_def split: option.splits)

lemma filter_tags_fields [simp]:
  "service (filter_tags this q) = service q" 
  "limit (filter_tags this q) = limit q" "lookback (filter_tags this q) = lookback q"
  "minDuration (filter_tags this q) = minDuration q"
  "maxDuration (filter_tags this q) = maxDuration q"
  by (simp_all add: filter_tags_def Let_def split: option.splits)

lemma unknown_service_limit [simp]:
  "unknown_service this (default_limit (coerce_limit q)) = unknown_service this q"
  by (simp add: unknown_service_def)

lemma validateQuery_Inr:
  "validateQuery this q = Inr q' \<longleftrightarrow>
     unknown_service this q = None \<and>
     q' = filter_tags this (drop_maxDuration (drop_minDuration (fix_lookback (default_limit (coerce_limit q)))))"
  by (auto simp: validateQuery_def Let_def split: option.splits)

lemma validateQuery_Inl:
  "validateQuery this q = Inl e \<longleftrightarrow>
     (\<exists>s. unknown_service this q = Some s \<and> e = Error (invalid_service_message s (services this)))"
  by (auto simp: validateQuery_def Let_def split: option.splits)

lemma minDuration_drop_minDuration:
  "minDuration (drop_minDuration q) =
     (case minDuration q of
        None \<Rightarrow> None
      | Some d \<Rightarrow> if d \<noteq> [] \<and> \<not> durationRegex_test d then None else Some d)"
  by (simp add: drop_minDuration_def split: option.splits)

lemma maxDuration_drop_maxDuration:
  "maxDuration (drop_maxDuration q) =
     (case maxDuration q of
        None \<Rightarrow> None
      | Some d \<Rightarrow> if d \<noteq> [] \<and> \<not> durationRegex_test d then None else Some d)"
  by (simp add: drop_maxDuration_def split: option.splits)

subsection \<open>Splitting and the tag pattern\<close>

lemma js_split_unfold:
  "js_split c s =
     takeWhile (\<lambda>x. x \<noteq> c) s #
       (case dropWhile (\<lambda>x. x \<noteq> c) s of [] \<Rightarrow> [] | _ # r \<Rightarrow> js_split c r)"
  by (induction s) (auto split: list.splits)

lemma tag_key_char_not_eq: "is_tag_key_char c \<Longrightarrow> c \<noteq> CHR ''=''"
  by (auto simp: is_tag_key_char_def)

lemma tag_test_iff:
  assumes "dropWhile (\<lambda>c. c \<noteq> CHR ''='') pair \<noteq> []"
  shows "tag_test pair \<longleftrightarrow> pair_key pair \<noteq> [] \<and> list_all is_tag_key_char (pair_key pair)"
proof -
  define key where "key = takeWhile (\<lambda>c. c \<noteq> CHR ''='') pair"
  define rest where "rest = dropWhile (\<lambda>c. c \<noteq> CHR ''='') pair"
  have pair: "pair = key @ rest" by (simp add: key_def rest_def)
  from assms hd_dropWhile[of "\<lambda>c. c \<noteq> CHR ''=''" pair] have "hd rest = CHR ''=''"
    by (simp add: rest_def)
  moreover from assms have "rest \<noteq> []" by (simp add: rest_def)
  ultimately obtain r where rest: "rest = CHR ''='' # r"
    by (cases rest) auto
  have key_noeq: "\<forall>c\<in>set key. c \<noteq> CHR ''=''"
    unfolding key_def by (auto dest: set_takeWhileD)
  show ?thesis
  proof (cases "\<forall>c\<in>set key. is_tag_key_char c")
    case True
    then have "takeWhile is_tag_key_char pair = key" "dropWhile is_tag_key_char pair = rest"
      using tag_key_char_not_eq by (auto simp: pair rest)
    with True show ?thesis
      by (auto simp: tag_test_def pair_key_def key_def[symmetric] rest list_all_iff)
  next
    case False
    then have tw: "takeWhile is_tag_key_char pair = takeWhile is_tag_key_char key"
      and dw: "dropWhile is_tag_key_char pair = dropWhile is_tag_key_char key @ rest"
      by (auto simp: pair)
    from False have ne: "dropWhile is_tag_key_char key \<noteq> []" by auto
    then obtain d ds where d: "dropWhile is_tag_key_char key = d # ds"
      by (cases "dropWhile is_tag_key_char key") auto
    then have "d \<in> set key" by (metis list.set_intros(1) set_dropWhileD)
    with key_noeq have "d \<noteq> CHR ''=''" by blast
    with False d dw show ?thesis
      by (auto simp: tag_test_def pair_key_def key_def[symmetric] list_all_iff)
  qed
qed

lemma js_split_one:
  assumes "dropWhile (\<lambda>x. x \<noteq> c) s = []"
  shows "js_split c s = [takeWhile (\<lambda>x. x \<noteq> c) s]"
proof -
  have "js_split c s = takeWhile (\<lambda>x. x \<noteq> c) s #
       (case dropWhile (\<lambda>x. x \<noteq> c) s of [] \<Rightarrow> [] | _ # r \<Rightarrow> js_split c r)"
    by (rule js_split_unfold)
  also have "\<dots> = [takeWhile (\<lambda>x. x \<noteq> c) s]"
    unfolding assms by simp
  finally show ?thesis .
qed

lemma js_split_more:
  assumes "dropWhile (\<lambda>x. x \<noteq> c) s = e # r"
  shows "\<exists>ps. js_split c s = takeWhile (\<lambda>x. x \<noteq> c) s # takeWhile (\<lambda>x. x \<noteq> c) r # ps"
proof -
  have "js_split c s = takeWhile (\<lambda>x. x \<noteq> c) s #
       (case dropWhile (\<lambda>x. x \<noteq> c) s of [] \<Rightarrow> [] | _ # r \<Rightarrow> js_split c r)"
    by (rule js_split_unfold)
  also have "\<dots> = takeWhile (\<lambda>x. x \<noteq> c) s # js_split c r"
    unfolding assms by simp
  finally show ?thesis
    by (subst (asm) js_split_unfold[of c r]) blast
qed

lemma valid_tag_kept_pair: "valid_tag this query pair = kept_pair this (service query) pair"
proof (cases "dropWhile (\<lambda>c. c \<noteq> CHR ''='') pair")
  case Nil
  have "pair_value pair = None" unfolding pair_value_def Nil by simp
  moreover have "js_split (CHR ''='') pair = [takeWhile (\<lambda>x. x \<noteq> CHR ''='') pair]"
    using Nil by (rule js_split_one)
  ultimately show ?thesis
    by (simp add: valid_tag_def kept_pair_def)
next
  case (Cons e r)
  then have ne: "dropWhile (\<lambda>c. c \<noteq> CHR ''='') pair \<noteq> []" by simp
  have pv: "pair_value pair = Some (takeWhile (\<lambda>x. x \<noteq> CHR ''='') r)"
    unfolding pair_value_def Cons by simp
  from js_split_more[OF Cons] obtain ps where
    sp: "js_split (CHR ''='') pair = pair_key pair # takeWhile (\<lambda>x. x \<noteq> CHR ''='') r # ps"
    unfolding pair_key_def by blast
  show ?thesis
    unfolding valid_tag_def kept_pair_def sp pv
    using tag_test_iff[OF ne]
    by (simp split: option.splits)
qed

lemma js_join_empty: "[] \<notin> set xs \<Longrightarrow> js_join sep xs = [] \<longleftrightarrow> xs = []"
  by (induction sep xs rule: js_join.induct) auto

lemma kept_pair_nonempty: "kept_pair this svc pair \<Longrightarrow> pair \<noteq> []"
  by (auto simp: kept_pair_def pair_value_def split: option.splits)

subsection \<open>Numbers and \<^verbatim>\<open>parseInt\<close>\<close>

lemma number_truthy_of_int [simp]: "number_truthy (Num (of_int k)) \<longleftrightarrow> k \<noteq> 0"
proof (cases "k = 0")
  case True
  then show ?thesis by (simp add: number_truthy_def)
next
  case False
  then have "1 \<le> \<bar>k\<bar>" by arith
  then have "(1::rat) \<le> of_int \<bar>k\<bar>" by (simp only: of_int_1_le_iff)
  then have "(1::rat) \<le> \<bar>of_int k\<bar>" by simp
  moreover have "(1::rat) / 2 ^ 1075 < 1" by simp
  ultimately have "(1::rat) / 2 ^ 1075 < \<bar>of_int k\<bar>" by (rule less_le_trans[rotated])
  with False show ?thesis by (simp only: number_truthy_def number.case simp_thms)
qed

lemma number_truthy_NaN [simp]: "\<not> number_truthy NaN"
  by (simp add: number_truthy_def)

lemma number_truthy_numeral [simp]: "number_truthy (Num (numeral k))"
  using number_truthy_of_int[of "numeral k"] by simp

lemma number_truthy_neg_numeral [simp]: "number_truthy (Num (- numeral k))"
  using number_truthy_of_int[of "- numeral k"] by simp

lemma number_truthy_zero [simp]: "\<not> number_truthy (Num 0)"
  using number_truthy_of_int[of 0] by simp

lemma number_truthy_100: "number_truthy (Num 100)"
  by simp

lemma parseInt_integer: "parseInt s = NaN \<or> (\<exists>k. parseInt s = Num (of_int k))"
proof -
  have A: "\<exists>k. (of_nat n :: rat) = of_int k" for n
    by (rule exI[of _ "int n"]) simp
  have B: "\<exists>k. (- of_nat n :: rat) = of_int k" for n
    by (rule exI[of _ "- int n"]) simp
  show ?thesis
    by (simp add: parseInt_def Let_def A B)
qed

lemma parseInt_or_100_integer: "\<exists>k. k \<noteq> 0 \<and> parseInt_or_100 s = Num (of_int k)"
proof (cases "number_truthy (parseInt s)")
  case True
  with parseInt_integer[of s] obtain k where k: "parseInt s = Num (of_int k)"
    by auto
  with True have "k \<noteq> 0" by simp
  with True k show ?thesis by (auto simp: parseInt_or_100_def)
next
  case False
  have "(100::int) \<noteq> 0 \<and> Num 100 = Num (of_int 100)" by simp
  then have "\<exists>k. k \<noteq> 0 \<and> Num 100 = Num (of_int k)" by (rule exI)
  with False show ?thesis by (simp add: parseInt_or_100_def)
qed

lemma number_truthy_parseInt_or_100 [simp]: "number_truthy (parseInt_or_100 s)"
  using parseInt_or_100_integer[of s] by auto

lemma parseInt_true: "parseInt ''true'' = NaN"
  by (simp add: parseInt_def StrWhiteSpaceChar_def is_digit_def)

lemma limit_normalised:
  "limit (default_limit (coerce_limit q)) =
     Some (LNum (case limit q of
                   Some (LNum n) \<Rightarrow> if number_truthy n then n else Num 100
                 | Some (LStr s) \<Rightarrow> if s \<noteq> [] then parseInt_or_100 s else Num 100
                 | Some (LBool b) \<Rightarrow> if b then parseInt_or_100 ''true'' else Num 100
                 | _ \<Rightarrow> Num 100))"
  by (simp add: default_limit_def coerce_limit_def limit_truthy_def
      split: option.splits limit_value.splits)


subsection \<open>Evaluating \<^verbatim>\<open>validateQuery\<close> on a given query\<close>

lemmas validate_eval =
  validateQuery_def coerce_limit_def default_limit_def unknown_service_def fix_lookback_def
  drop_minDuration_def drop_maxDuration_def filter_tags_def valid_tag_def tag_test_def
  lookback_test_def durationRegex_test_def is_digit_def is_unit_def is_tag_key_char_def
  limit_truthy_def string_truthy_def parseInt_or_100_def parseInt_def StrWhiteSpaceChar_def
  digits_value_def digit_value_def invalid_service_message_def empty_query_def
  loaded_service_def Let_def

lemmas kept_eval = kept_pair_def pair_key_def pair_value_def is_tag_key_char_def

section \<open>Properties of a call\<close>

subsection \<open>The health check and the events of a call\<close>

lemma requests_append: "requests (a @ b) = requests a @ requests b"
  by (induction a rule: requests.induct) simp_all

lemma health_check_failed: "health_failed w \<Longrightarrow> health_check w = Inl (Error unavailable_message)"
  by (auto simp: health_failed_def health_check_def split: sum.splits)

lemma health_check_ok: "\<not> health_failed w \<Longrightarrow> health_check w = Inr ()"
  by (auto simp: health_failed_def health_check_def split: sum.splits)

lemma translateQuery_health_failed:
  assumes "health_failed w"
  shows "translateQuery w this query sel =
           (Inl (Error unavailable_message), this,
            [ConsoleLog ''Starting translation for query:'', Fetch GetHealth,
             ConsoleError ''AI translation failed:''])"
  by (simp add: translateQuery_def health_check_failed[OF assms] rethrow_def)

lemma parse_and_validate_events:
  "\<exists>rest. events_of (parse_and_validate this ev t) = ev @ rest"
  by (simp add: parse_and_validate_def rethrow_def events_of_def Let_def split: sum.splits)

lemma request_generation_events:
  "\<exists>rest. events_of (request_generation w this ev info query) = ev @ rest"
proof (cases "generate w (render SYSTEM_PROMPT info query)")
  case (Inl e)
  then show ?thesis
    by (simp add: request_generation_def rethrow_def events_of_def Let_def)
next
  case (Inr t)
  obtain rest where "events_of (parse_and_validate this
      (ev @ [ConsoleLog ''Request body:'', Fetch (PostGenerate (render SYSTEM_PROMPT info query))]) t) =
      (ev @ [ConsoleLog ''Request body:'', Fetch (PostGenerate (render SYSTEM_PROMPT info query))]) @ rest"
    using parse_and_validate_events by blast
  with Inr show ?thesis
    by (simp add: request_generation_def Let_def)
qed

lemma translateQuery_events_start:
  "\<exists>rest. events_of (translateQuery w this query sel) =
     [ConsoleLog ''Starting translation for query:'', Fetch GetHealth] @ rest"
proof (cases "health_check w")
  case (Inl e)
  then show ?thesis by (simp add: translateQuery_def rethrow_def events_of_def)
next
  case (Inr u)
  obtain r this1 ev1 where el: "ensure_loaded w this = (r, this1, ev1)"
    by (cases "ensure_loaded w this") auto
  show ?thesis
  proof (cases r)
    case (Inl e)
    with Inr el show ?thesis by (simp add: translateQuery_def rethrow_def events_of_def)
  next
    case r: (Inr u')
    show ?thesis
    proof (cases "servicesInfo this1 sel")
      case (Inl e)
      with Inr el r show ?thesis by (simp add: translateQuery_def rethrow_def events_of_def)
    next
      case info: (Inr info)
      obtain rest where "events_of (request_generation w this1
          ([ConsoleLog ''Starting translation for query:'', Fetch GetHealth] @ ev1) info query) =
          ([ConsoleLog ''Starting translation for query:'', Fetch GetHealth] @ ev1) @ rest"
        using request_generation_events by blast
      with Inr el r info show ?thesis by (simp add: translateQuery_def)
    qed
  qed
qed

subsection \<open>Loading the services\<close>

lemma fetchServiceOperations_services [simp]:
  "services (fst (fetchServiceOperations w this s)) = services this"
  by (simp add: fetchServiceOperations_def Let_def split: sum.splits option.splits)

lemma fetchServiceOperations_routes:
  "serviceRoutes (fst (fetchServiceOperations w this s)) =
     (serviceRoutes this)(s \<mapsto> (if operations_failed w s then []
        else (case operations w s of Inr r \<Rightarrow> (case body r of Some d \<Rightarrow> data_or_empty d | None \<Rightarrow> []) | Inl e \<Rightarrow> [])))"
  by (auto simp: fetchServiceOperations_def operations_failed_def Let_def split: sum.splits option.splits)

lemma fetchServiceOperations_events:
  "snd (fetchServiceOperations w this s) =
     (if operations_failed w s then [ConsoleError (''Failed to fetch operations for '' @ s @ '':'')] else [])"
  by (auto simp: fetchServiceOperations_def operations_failed_def Let_def split: sum.splits option.splits)

lemma settle_operations_services [simp]:
  "services (fst (settle_operations w this ss)) = services this"
proof (induction ss arbitrary: this)
  case Nil
  then show ?case by simp
next
  case (Cons s ss)
  obtain this1 ev1 where f: "fetchServiceOperations w this s = (this1, ev1)"
    by (cases "fetchServiceOperations w this s") auto
  obtain this2 ev2 where g: "settle_operations w this1 ss = (this2, ev2)"
    by (cases "settle_operations w this1 ss") auto
  have "services this1 = services this"
    using fetchServiceOperations_services[of w this s] f by simp
  moreover have "services this2 = services this1"
    using Cons.IH[of this1] g by simp
  ultimately show ?case using f g by simp
qed

lemma settle_operations_routes:
  "s \<in> set ss \<Longrightarrow>
   serviceRoutes (fst (settle_operations w this ss)) s \<noteq> None \<and>
   (operations_failed w s \<longrightarrow> serviceRoutes (fst (settle_operations w this ss)) s = Some [])"
proof (induction ss arbitrary: this)
  case Nil
  then show ?case by simp
next
  case (Cons a ss)
  obtain this1 ev1 where f: "fetchServiceOperations w this a = (this1, ev1)"
    by (cases "fetchServiceOperations w this a") auto
  obtain this2 ev2 where g: "settle_operations w this1 ss = (this2, ev2)"
    by (cases "settle_operations w this1 ss") auto
  have r1: "serviceRoutes this1 =
     (serviceRoutes this)(a \<mapsto> (if operations_failed w a then []
        else (case operations w a of Inr r \<Rightarrow> (case body r of Some d \<Rightarrow> data_or_empty d | None \<Rightarrow> []) | Inl e \<Rightarrow> [])))"
    using fetchServiceOperations_routes[of w this a] f by simp
  show ?case
  proof (cases "s \<in> set ss")
    case True
    from Cons.IH[OF True, of this1] g f show ?thesis by simp
  next
    case False
    with Cons.prems have sa: "s = a" by simp
    have keep: "serviceRoutes (fst (settle_operations w t ss)) s = serviceRoutes t s" for t
      using False
    proof (induction ss arbitrary: t)
      case Nil
      then show ?case by simp
    next
      case (Cons b bs)
      obtain t1 e1 where f1: "fetchServiceOperations w t b = (t1, e1)"
        by (cases "fetchServiceOperations w t b") auto
      obtain t2 e2 where g1: "settle_operations w t1 bs = (t2, e2)"
        by (cases "settle_operations w t1 bs") auto
      from Cons.prems have "s \<noteq> b" "s \<notin> set bs" by auto
      then have "serviceRoutes t1 s = serviceRoutes t s"
        using fetchServiceOperations_routes[of w t b] f1 by simp
      moreover have "serviceRoutes t2 s = serviceRoutes t1 s"
        using Cons.IH[OF \<open>s \<notin> set bs\<close>, of t1] g1 by simp
      ultimately show ?case using f1 g1 by simp
    qed
    from keep[of this1] g have "serviceRoutes this2 s = serviceRoutes this1 s" by simp
    with r1 sa f g show ?thesis by simp
  qed
qed

lemma settle_operations_logs:
  "s \<in> set ss \<Longrightarrow> operations_failed w s \<Longrightarrow>
   ConsoleError (''Failed to fetch operations for '' @ s @ '':'') \<in> set (snd (settle_operations w this ss))"
proof (induction ss arbitrary: this)
  case Nil
  then show ?case by simp
next
  case (Cons a ss)
  obtain this1 ev1 where f: "fetchServiceOperations w this a = (this1, ev1)"
    by (cases "fetchServiceOperations w this a") auto
  obtain this2 ev2 where g: "settle_operations w this1 ss = (this2, ev2)"
    by (cases "settle_operations w this1 ss") auto
  show ?case
  proof (cases "s = a")
    case True
    with Cons.prems(2) have "ev1 = [ConsoleError (''Failed to fetch operations for '' @ s @ '':'')]"
      using fetchServiceOperations_events[of w this a] f by simp
    with f g show ?thesis by simp
  next
    case False
    with Cons.prems have "s \<in> set ss" by simp
    from Cons.IH[OF this Cons.prems(2), of this1] g f show ?thesis by simp
  qed
qed

lemma fetchServices_failed:
  "service_list_failed w \<Longrightarrow>
   fetchServices w this =
     (Inl (Error services_failed_message), this,
      [Fetch GetServices, ConsoleError ''Failed to fetch services:''])"
  by (auto simp: fetchServices_def service_list_failed_def Let_def split: sum.splits option.splits)

lemma fetchServices_ok:
  assumes "\<not> service_list_failed w"
  shows "fetchServices w this =
     (Inr (listed_services w),
      fst (settle_operations w (this\<lparr>services := listed_services w\<rparr>) (listed_services w)),
      Fetch GetServices # map (\<lambda>s. Fetch (GetOperations s)) (listed_services w) @
        snd (settle_operations w (this\<lparr>services := listed_services w\<rparr>) (listed_services w)))"
proof -
  from assms obtain r d where r: "service_list w = Inr r" "ok r" "body r = Some d"
    by (auto simp: service_list_failed_def split: sum.splits)
  then have l: "listed_services w = data_or_empty d" by (simp add: listed_services_def)
  obtain this2 ev where s: "settle_operations w (this\<lparr>services := data_or_empty d\<rparr>) (data_or_empty d) = (this2, ev)"
    by (cases "settle_operations w (this\<lparr>services := data_or_empty d\<rparr>) (data_or_empty d)") auto
  have "services this2 = data_or_empty d"
    using settle_operations_services[of w "this\<lparr>services := data_or_empty d\<rparr>" "data_or_empty d"] s
    by simp
  with r s show ?thesis by (simp add: fetchServices_def l Let_def)
qed

lemma service_lines_ok:
  "(\<forall>s\<in>set ss. serviceRoutes this s \<noteq> None) \<Longrightarrow> \<exists>ls. service_lines this ss = Inr ls"
  by (induction ss) (auto simp: routes_text_def split: option.splits)

lemma request_generation_sends:
  "\<exists>p. PostGenerate p \<in> set (requests (events_of (request_generation w this ev info query)))"
proof -
  obtain rest where "events_of (request_generation w this ev info query) =
     (ev @ [ConsoleLog ''Request body:'', Fetch (PostGenerate (render SYSTEM_PROMPT info query))]) @ rest"
  proof (cases "generate w (render SYSTEM_PROMPT info query)")
    case (Inl e)
    with that show ?thesis
      by (simp add: request_generation_def rethrow_def events_of_def Let_def)
  next
    case (Inr t)
    obtain rest where "events_of (parse_and_validate this
      (ev @ [ConsoleLog ''Request body:'', Fetch (PostGenerate (render SYSTEM_PROMPT info query))]) t) =
      (ev @ [ConsoleLog ''Request body:'', Fetch (PostGenerate (render SYSTEM_PROMPT info query))]) @ rest"
      using parse_and_validate_events by blast
    with Inr that show ?thesis by (simp add: request_generation_def Let_def)
  qed
  then have "PostGenerate (render SYSTEM_PROMPT info query) \<in>
     set (requests (events_of (request_generation w this ev info query)))"
    by (simp add: requests_append)
  then show ?thesis by blast
qed

lemma ensure_loaded_fresh:
  "services this = [] \<Longrightarrow>
   ensure_loaded w this =
     (case fetchServices w this of
        (Inl e, this1, ev) \<Rightarrow> (Inl e, this1, ev)
      | (Inr names, this1, ev) \<Rightarrow> (Inr (), this1, ev))"
  by (simp add: ensure_loaded_def)

subsection \<open>The brace pattern\<close>

lemma dropWhile_neq_hd: "dropWhile (\<lambda>x. x \<noteq> c) t = o1 # rest \<Longrightarrow> o1 = c"
  by (induction t) (auto split: if_splits)

lemma dropWhile_neq_found: "c \<notin> set pre \<Longrightarrow> dropWhile (\<lambda>x. x \<noteq> c) (pre @ c # rest) = c # rest"
  by (induction pre) auto

lemma brace_match_SomeD:
  assumes "brace_match t = Some m"
  shows "\<exists>pre inner post. t = pre @ CHR ''{'' # inner @ CHR ''}'' # post \<and>
           CHR ''{'' \<notin> set pre \<and> CHR ''}'' \<notin> set post \<and> m = CHR ''{'' # inner @ [CHR ''}'']"
proof -
  define pre where "pre = takeWhile (\<lambda>c. c \<noteq> CHR ''{'') t"
  define r where "r = dropWhile (\<lambda>c. c \<noteq> CHR ''{'') t"
  have t: "t = pre @ r" by (simp add: pre_def r_def)
  have pre: "CHR ''{'' \<notin> set pre" unfolding pre_def by (auto dest: set_takeWhileD)
  from assms obtain o1 inner0 where r0: "r = o1 # inner0"
    unfolding brace_match_def r_def[symmetric] by (cases r) auto
  then have "o1 = CHR ''{''" unfolding r_def by (rule dropWhile_neq_hd)
  with r0 have r1: "r = CHR ''{'' # inner0" by simp
  define post where "post = rev (takeWhile (\<lambda>c. c \<noteq> CHR ''}'') (rev inner0))"
  define d where "d = dropWhile (\<lambda>c. c \<noteq> CHR ''}'') (rev inner0)"
  have "rev inner0 = rev post @ d" by (simp add: post_def d_def)
  then have "rev (rev inner0) = rev (rev post @ d)" by simp
  then have inner0: "inner0 = rev d @ post" by simp
  have post: "CHR ''}'' \<notin> set post" unfolding post_def by (auto dest: set_takeWhileD)
  have "brace_match t = (case rev d of [] \<Rightarrow> None | x # xs \<Rightarrow> Some (CHR ''{'' # x # xs))"
    by (simp only: brace_match_def r_def[symmetric] r1 d_def list.case)
  with assms have m: "rev d \<noteq> []" "m = CHR ''{'' # rev d"
    by (cases "rev d"; simp)+
  then obtain c d' where d: "d = c # d'" by (cases d) auto
  then have "c = CHR ''}''" unfolding d_def by (rule dropWhile_neq_hd)
  with d have d2: "d = CHR ''}'' # d'" by simp
  have "t = pre @ CHR ''{'' # rev d' @ CHR ''}'' # post" by (simp add: t r1 inner0 d2)
  moreover have "m = CHR ''{'' # rev d' @ [CHR ''}'']" by (simp add: m d2)
  ultimately show ?thesis using pre post by blast
qed

lemma brace_match_SomeI:
  assumes "CHR ''{'' \<notin> set pre" and "CHR ''}'' \<notin> set post"
  shows "brace_match (pre @ CHR ''{'' # inner @ CHR ''}'' # post) = Some (CHR ''{'' # inner @ [CHR ''}''])"
proof -
  have 1: "dropWhile (\<lambda>c. c \<noteq> CHR ''{'') (pre @ CHR ''{'' # inner @ CHR ''}'' # post) =
           CHR ''{'' # inner @ CHR ''}'' # post"
    using assms(1) by (rule dropWhile_neq_found)
  have "CHR ''}'' \<notin> set (rev post)" using assms(2) by simp
  then have "dropWhile (\<lambda>c. c \<noteq> CHR ''}'') (rev post @ CHR ''}'' # rev inner) = CHR ''}'' # rev inner"
    by (rule dropWhile_neq_found)
  moreover have "rev (inner @ CHR ''}'' # post) = rev post @ CHR ''}'' # rev inner" by simp
  ultimately have 2: "rev (dropWhile (\<lambda>c. c \<noteq> CHR ''}'') (rev (inner @ CHR ''}'' # post))) =
           inner @ [CHR ''}'']"
    by simp
  show ?thesis
    unfolding brace_match_def 1 list.case 2
    by (cases inner) simp_all
qed

lemma brace_match_iff:
  "brace_match t = Some m \<longleftrightarrow>
     (\<exists>pre inner post. t = pre @ CHR ''{'' # inner @ CHR ''}'' # post \<and>
        CHR ''{'' \<notin> set pre \<and> CHR ''}'' \<notin> set post \<and> m = CHR ''{'' # inner @ [CHR ''}''])"
  using brace_match_SomeD brace_match_SomeI by blast

subsection \<open>Evaluating the parser and a call on given inputs\<close>

lemmas json_eval = JSON_parse_def parse_step_def start_value_def start_member_def close_array_def
  close_object_def deliver_def number_literal_def is_number_char_def is_json_ws_def is_digit_def
  digits_value_def digit_value_def hex_value_def escape_char_def unicode_escape_def Let_def

lemmas world_eval = example_world_def fresh_service_def health_failed_def service_list_failed_def
  operations_failed_def listed_services_def ok_def data_or_empty_def

lemmas call_eval = translateQuery_def health_check_def ensure_loaded_def fetchServices_def
  fetchServiceOperations_def servicesInfo_def full_view_def routes_text_def request_generation_def
  parse_and_validate_def generate_def validate_result_def query_of_json_def string_field_def
  limit_field_def rethrow_def result_of_def service_after_def events_of_def string_truthy_def
  is_generate_def


section \<open>Properties of the prompt\<close>

subsection \<open>The first occurrence of a pattern\<close>

lemma find_first_SomeD: "find_first pat s = Some (p, f) \<Longrightarrow> s = p @ pat @ f"
proof (induction s arbitrary: p)
  case Nil
  then show ?case by (simp split: if_splits)
next
  case (Cons c cs)
  show ?case
  proof (cases "take (length pat) (c # cs) = pat")
    case True
    with Cons.prems have "p = []" "f = drop (length pat) (c # cs)" by simp_all
    with True show ?thesis by (metis append_Nil append_take_drop_id)
  next
    case False
    with Cons.prems obtain p' where "find_first pat cs = Some (p', f)" "p = c # p'"
      by (auto split: option.splits)
    with Cons.IH[of p'] show ?thesis by simp
  qed
qed

lemma find_first_occurs: "\<exists>p f. find_first pat (a @ pat @ b) = Some (p, f) \<and> length p \<le> length a"
proof (induction a)
  case Nil
  show ?case
  proof (cases "pat @ b")
    case Nil
    then show ?thesis by simp
  next
    case (Cons c cs)
    have "take (length pat) (pat @ b) = pat" by simp
    with Cons show ?thesis by simp
  qed
next
  case (Cons x a)
  then obtain p f where "find_first pat (a @ pat @ b) = Some (p, f)" "length p \<le> length a"
    by blast
  then show ?case by simp
qed

lemma later_suffix:
  assumes "x @ f = y @ b" and "length x \<le> length y"
  shows "\<exists>f0. f = f0 @ b"
proof -
  from assms(1) obtain us where "(x = y @ us \<and> us @ f = b) \<or> (x @ us = y \<and> f = us @ b)"
    by (auto simp: append_eq_append_conv2)
  then show ?thesis
  proof
    assume c: "x = y @ us \<and> us @ f = b"
    with assms(2) have "us = []" by simp
    with c have "f = [] @ b" by simp
    then show ?thesis by blast
  next
    assume "x @ us = y \<and> f = us @ b"
    then show ?thesis by blast
  qed
qed

subsection \<open>The placeholders of the template\<close>

lemma SYSTEM_PROMPT_placeholders:
  "\<exists>A B C. SYSTEM_PROMPT = A @ ''{services}'' @ B @ ''{query}'' @ C"
proof -
  let ?f = "\<lambda>l. l @ [CHR 0x0A]"
  have l: "SYSTEM_PROMPT_lines =
      take 12 SYSTEM_PROMPT_lines @ [''{services}''] @ take 69 (drop 13 SYSTEM_PROMPT_lines) @
      [[CHR 0x22] @ ''{query}'' @ [CHR 0x22]] @ drop 83 SYSTEM_PROMPT_lines"
    by (simp add: SYSTEM_PROMPT_lines_def)
  have "SYSTEM_PROMPT =
      concat (map ?f (take 12 SYSTEM_PROMPT_lines)) @ ''{services}'' @
      ([CHR 0x0A] @ concat (map ?f (take 69 (drop 13 SYSTEM_PROMPT_lines))) @ [CHR 0x22]) @
      ''{query}'' @ ([CHR 0x22, CHR 0x0A] @ concat (map ?f (drop 83 SYSTEM_PROMPT_lines)))"
    unfolding SYSTEM_PROMPT_def by (subst l) (simp only: map_append concat_append list.map concat.simps append_assoc append.simps)
  then show ?thesis by blast
qed

lemma render_keeps_query_placeholder:
  "\<exists>pre post. find_first ''{query}'' (js_replace ''{services}'' info SYSTEM_PROMPT) = Some (pre, post)"
proof -
  obtain A B C where sp: "SYSTEM_PROMPT = A @ ''{services}'' @ B @ ''{query}'' @ C"
    using SYSTEM_PROMPT_placeholders by blast
  obtain p f where pf: "find_first ''{services}'' SYSTEM_PROMPT = Some (p, f)" "length p \<le> length A"
    using find_first_occurs[of "''{services}''" A "B @ ''{query}'' @ C"] sp by auto
  from find_first_SomeD[OF pf(1)] sp
  have "(p @ ''{services}'') @ f = (A @ ''{services}'') @ (B @ ''{query}'' @ C)" by simp
  moreover have "length (p @ ''{services}'') \<le> length (A @ ''{services}'')" using pf(2) by simp
  ultimately obtain f0 where f0: "f = f0 @ B @ ''{query}'' @ C"
    using later_suffix by blast
  have "js_replace ''{services}'' info SYSTEM_PROMPT =
        (p @ GetSubstitution ''{services}'' p f info @ f0 @ B) @ ''{query}'' @ C"
    by (simp add: js_replace_def pf(1) f0)
  moreover obtain pre post where
    "find_first ''{query}'' ((p @ GetSubstitution ''{services}'' p f info @ f0 @ B) @ ''{query}'' @ C) =
       Some (pre, post)"
    using find_first_occurs[of "''{query}''" "p @ GetSubstitution ''{services}'' p f info @ f0 @ B" C]
    by blast
  ultimately show ?thesis by simp
qed

text \<open>Two queries rendered into a short template: \<^verbatim>\<open>$$\<close> arrives as \<^verbatim>\<open>$\<close>, and \<^verbatim>\<open>$&\<close>
  as the placeholder.\<close>

lemma render_dollar_examples:
  \<open>render ''Services: {services}. Input: "{query}"'' ''payment (routes: )'' ''top $$ spenders'' =
     ''Services: payment (routes: ). Input: "top $ spenders"'' \<and>
   render ''Services: {services}. Input: "{query}"'' ''payment (routes: )'' ''what is $& here'' =
     ''Services: payment (routes: ). Input: "what is {query} here"''\<close>
  by (simp add: render_def js_replace_def)

section \<open>The claims about \<^verbatim>\<open>validateQuery\<close>\<close>

subsection \<open>C1: the tag filter\<close>

text \<open>
  Claim C1, as stated, does not hold. Three inputs show it:
  \<^item> with no service field, the pair \<^verbatim>\<open>http.route=/nowhere\<close> is kept, although no route
    was checked (line 257 checks routes only when \<^verbatim>\<open>query.service\<close> is truthy);
  \<^item> \<^verbatim>\<open>split(' ')\<close> splits at single spaces only, so two pairs separated by a TAB stay
    one pair, which is kept with the TAB inside;
  \<^item> an empty tags string is falsy at line 250 and stays the empty string.
\<close>

theorem validateQuery_tags_counterexample:
  "validateQuery loaded_service (empty_query\<lparr>tags := Some ''http.route=/nowhere''\<rparr>) =
     Inr (empty_query\<lparr>tags := Some ''http.route=/nowhere'', limit := Some (LNum (Num 100))\<rparr>) \<and>
   validateQuery loaded_service (empty_query\<lparr>tags := Some (''a=1'' @ [CHR 0x09] @ ''b=2'')\<rparr>) =
     Inr (empty_query\<lparr>tags := Some (''a=1'' @ [CHR 0x09] @ ''b=2''), limit := Some (LNum (Num 100))\<rparr>) \<and>
   validateQuery loaded_service (empty_query\<lparr>tags := Some ''''\<rparr>) =
     Inr (empty_query\<lparr>tags := Some '''', limit := Some (LNum (Num 100))\<rparr>)"
  by (simp add: validate_eval)

text \<open>
  Claim C1, amended: for every query that \<^verbatim>\<open>validateQuery\<close> returns and whose tags field
  was a non-empty string, the tags are split at every single space; a piece is kept
  exactly when it has a non-empty key (its text before the first \<^verbatim>\<open>=\<close>) and a non-empty
  value (its text between the first \<^verbatim>\<open>=\<close> and the next one, or the end), and, when the key
  is \<^verbatim>\<open>http.route\<close> and the service field is a non-empty string, its value is one of the
  routes recorded for that service, and otherwise its key consists of characters of
  \<^verbatim>\<open>[a-zA-Z0-9._-]\<close>; the kept pieces are joined with single spaces, and when none is
  kept the tags field is absent.
\<close>

theorem validateQuery_tags:
  assumes "validateQuery this query = Inr q'" and "tags query = Some t" and "t \<noteq> []"
  shows "tags q' =
           (let kept = filter (kept_pair this (service query)) (js_split (CHR '' '') t)
            in if kept = [] then None else Some (js_join '' '' kept))"
proof -
  let ?q = "drop_maxDuration (drop_minDuration (fix_lookback (default_limit (coerce_limit query))))"
  let ?kept = "filter (kept_pair this (service query)) (js_split (CHR '' '') t)"
  have "[] \<notin> set ?kept" using kept_pair_nonempty by auto
  then have j: "js_join '' '' ?kept = [] \<longleftrightarrow> ?kept = []" by (rule js_join_empty)
  have v: "valid_tag this ?q = kept_pair this (service query)"
    by (rule ext) (simp add: valid_tag_kept_pair)
  from assms have "q' = filter_tags this ?q" and "tags ?q = Some t"
    by (simp_all add: validateQuery_Inr)
  then show ?thesis using assms(3) j
    by (simp add: filter_tags_def Let_def v)
qed

text \<open>Witness for C1: a known route is kept, an unknown route and the malformed pairs
  \<^verbatim>\<open>bad\<close>, \<^verbatim>\<open>pair=\<close> and \<^verbatim>\<open>=novalue\<close> are dropped; and when nothing is kept the field is
  absent.\<close>

theorem validateQuery_tags_witness:
  "tags (empty_query\<lparr>service := Some ''auth-service'', limit := Some (LNum (Num 100)),
           tags := Some ''http.route=/v1/login error=true''\<rparr>) =
     Some ''http.route=/v1/login error=true'' \<and>
   tags (empty_query\<lparr>service := Some ''auth-service'', limit := Some (LNum (Num 100)),
           tags := None\<rparr>) = None"
proof -
  let ?q1 = "empty_query\<lparr>service := Some ''auth-service'',
    tags := Some ''http.route=/v1/login http.route=/v2/login error=true bad pair= =novalue''\<rparr>"
  let ?r1 = "empty_query\<lparr>service := Some ''auth-service'', limit := Some (LNum (Num 100)),
    tags := Some ''http.route=/v1/login error=true''\<rparr>"
  let ?q2 = "empty_query\<lparr>service := Some ''auth-service'', tags := Some ''http.route=/v2/login''\<rparr>"
  let ?r2 = "empty_query\<lparr>service := Some ''auth-service'', limit := Some (LNum (Num 100)),
    tags := None\<rparr>"
  have h1: "validateQuery loaded_service ?q1 = Inr ?r1" by (simp add: validate_eval)
  have t1: "tags ?q1 =
    Some ''http.route=/v1/login http.route=/v2/login error=true bad pair= =novalue''"
    by (simp add: empty_query_def)
  have h2: "validateQuery loaded_service ?q2 = Inr ?r2" by (simp add: validate_eval)
  have t2: "tags ?q2 = Some ''http.route=/v2/login''" by (simp add: empty_query_def)
  have "tags ?r1 = Some ''http.route=/v1/login error=true''"
    using validateQuery_tags[OF h1 t1] by (simp add: kept_eval loaded_service_def empty_query_def)
  moreover have "tags ?r2 = None"
    using validateQuery_tags[OF h2 t2] by (simp add: kept_eval loaded_service_def empty_query_def)
  ultimately show ?thesis by blast
qed

subsection \<open>C2: the service field\<close>

text \<open>
  Claim C2, as stated, does not hold: a service field holding the empty string is
  present and is not a known service name, yet line 231 (\<^verbatim>\<open>query.service && \<dots>\<close>) skips
  the check for it and the query is returned.
\<close>

theorem validateQuery_service_counterexample:
  "validateQuery loaded_service (empty_query\<lparr>service := Some ''''\<rparr>) =
     Inr (empty_query\<lparr>service := Some '''', limit := Some (LNum (Num 100))\<rparr>)"
  by (simp add: validate_eval)

text \<open>
  Claim C2, amended: if the service field is a non-empty string that is not one of the
  known service names, \<^verbatim>\<open>validateQuery\<close> fails with the error whose message names the
  value and lists the known services, and returns no query; if the service field is a
  known service name, the query is returned with that service unchanged; an absent service
  field is not an error.
\<close>

theorem validateQuery_service:
  "(service query = Some s \<and> s \<noteq> [] \<and> s \<notin> set (services this) \<longrightarrow>
      validateQuery this query = Inl (Error (invalid_service_message s (services this)))) \<and>
   (service query = Some s \<and> s \<in> set (services this) \<longrightarrow>
      (\<exists>q'. validateQuery this query = Inr q' \<and> service q' = Some s)) \<and>
   (service query = None \<longrightarrow>
      (\<exists>q'. validateQuery this query = Inr q' \<and> service q' = None))"
  by (auto simp: validateQuery_Inr validateQuery_Inl unknown_service_def)

text \<open>Witness for C2: an unknown service with the text of its message, a known service,
  and an absent one.\<close>

theorem validateQuery_service_witness:
  \<open>validateQuery loaded_service (empty_query\<lparr>service := Some ''order''\<rparr>) =
     Inl (Error ''Invalid service "order". Available services are: auth-service, payment'') \<and>
   (\<exists>q'. validateQuery loaded_service (empty_query\<lparr>service := Some ''payment''\<rparr>) = Inr q' \<and>
      service q' = Some ''payment'') \<and>
   (\<exists>q'. validateQuery loaded_service empty_query = Inr q' \<and> service q' = None)\<close>
proof -
  have "validateQuery loaded_service (empty_query\<lparr>service := Some ''order''\<rparr>) =
      Inl (Error (invalid_service_message ''order'' (services loaded_service)))"
    using validateQuery_service[of "empty_query\<lparr>service := Some ''order''\<rparr>" "''order''" loaded_service]
    by (simp add: loaded_service_def)
  moreover have "\<exists>q'. validateQuery loaded_service (empty_query\<lparr>service := Some ''payment''\<rparr>) = Inr q' \<and>
      service q' = Some ''payment''"
    using validateQuery_service[of "empty_query\<lparr>service := Some ''payment''\<rparr>" "''payment''" loaded_service]
    by (simp add: loaded_service_def)
  moreover have "\<exists>q'. validateQuery loaded_service empty_query = Inr q' \<and> service q' = None"
    using validateQuery_service[of empty_query "''''" loaded_service]
    by (simp add: empty_query_def)
  ultimately show ?thesis
    by (simp add: invalid_service_message_def loaded_service_def)
qed

subsection \<open>C3: the limit field\<close>

text \<open>
  Claim C3, as stated, does not hold: a limit that is already a number is returned as it
  is whenever it is truthy, so the limit \<open>-5\<close> is returned, which is not a positive count.
\<close>

theorem validateQuery_limit_counterexample:
  "validateQuery loaded_service (empty_query\<lparr>limit := Some (LNum (Num (- 5)))\<rparr>) =
     Inr (empty_query\<lparr>limit := Some (LNum (Num (- 5)))\<rparr>) \<and> \<not> (0::rat) < - 5"
  by (simp add: validate_eval)

text \<open>
  Claim C3, amended: the limit of every query that \<^verbatim>\<open>validateQuery\<close> returns is a number
  that is neither \<open>NaN\<close> nor zero (it need not be positive nor an integer). A limit that
  is falsy (absent, \<^verbatim>\<open>null\<close>, \<^verbatim>\<open>false\<close>, zero, \<open>NaN\<close>, the empty string) becomes 100; a
  truthy number is returned unchanged; a string becomes the integer \<^verbatim>\<open>parseInt\<close> reads
  from it when that is neither \<open>NaN\<close> nor zero, and 100 otherwise, so it always becomes
  a non-zero integer (\<^verbatim>\<open>"50"\<close> becomes 50); \<^verbatim>\<open>true\<close> becomes 100.
\<close>

theorem validateQuery_limit:
  assumes "validateQuery this query = Inr q'"
  shows "(\<exists>n. limit q' = Some (LNum n) \<and> number_truthy n) \<and>
         (\<not> limit_truthy (limit query) \<longrightarrow> limit q' = Some (LNum (Num 100))) \<and>
         (\<forall>n. limit query = Some (LNum n) \<and> number_truthy n \<longrightarrow> limit q' = Some (LNum n)) \<and>
         (\<forall>s. limit query = Some (LStr s) \<longrightarrow>
            (\<exists>k. k \<noteq> 0 \<and> limit q' = Some (LNum (Num (of_int k)))) \<and>
            limit q' = Some (LNum (if s \<noteq> [] \<and> number_truthy (parseInt s)
                                   then parseInt s else Num 100))) \<and>
         (limit query = Some (LBool True) \<longrightarrow> limit q' = Some (LNum (Num 100)))"
proof -
  from assms have q': "limit q' = limit (default_limit (coerce_limit query))"
    by (simp add: validateQuery_Inr)
  have c1: "\<exists>n. limit q' = Some (LNum n) \<and> number_truthy n"
    unfolding q' limit_normalised
    by (simp split: option.splits limit_value.splits)
  have c2: "\<not> limit_truthy (limit query) \<longrightarrow> limit q' = Some (LNum (Num 100))"
    unfolding q' limit_normalised
    by (simp add: limit_truthy_def split: option.splits limit_value.splits)
  have c3: "\<forall>n. limit query = Some (LNum n) \<and> number_truthy n \<longrightarrow> limit q' = Some (LNum n)"
    unfolding q' limit_normalised by simp
  have c4: "\<forall>s. limit query = Some (LStr s) \<longrightarrow>
            (\<exists>k. k \<noteq> 0 \<and> limit q' = Some (LNum (Num (of_int k)))) \<and>
            limit q' = Some (LNum (if s \<noteq> [] \<and> number_truthy (parseInt s)
                                   then parseInt s else Num 100))"
  proof (intro allI impI conjI)
    fix s assume s: "limit query = Some (LStr s)"
    have h: "(100::int) \<noteq> 0 \<and> Num 100 = Num (of_int 100)" by simp
    show "\<exists>k. k \<noteq> 0 \<and> limit q' = Some (LNum (Num (of_int k)))"
      unfolding q' limit_normalised s
      using parseInt_or_100_integer[of s] h by (cases "s = []") auto
    show "limit q' = Some (LNum (if s \<noteq> [] \<and> number_truthy (parseInt s)
                                   then parseInt s else Num 100))"
      unfolding q' limit_normalised s by (simp add: parseInt_or_100_def)
  qed
  have c5: "limit query = Some (LBool True) \<longrightarrow> limit q' = Some (LNum (Num 100))"
    unfolding q' limit_normalised by (simp add: parseInt_or_100_def parseInt_true)
  from c1 c2 c3 c4 c5 show ?thesis by blast
qed

text \<open>Witness for C3: an absent limit, the strings \<^verbatim>\<open>"50"\<close> and \<^verbatim>\<open>"soon"\<close>, the number 20
  and \<^verbatim>\<open>true\<close>.\<close>

theorem validateQuery_limit_witness:
  "limit (empty_query\<lparr>limit := Some (LNum (Num 100))\<rparr>) = Some (LNum (Num 100)) \<and>
   limit (empty_query\<lparr>limit := Some (LNum (Num 50))\<rparr>) = Some (LNum (Num 50)) \<and>
   limit (empty_query\<lparr>limit := Some (LNum (Num 20))\<rparr>) = Some (LNum (Num 20)) \<and>
   validateQuery loaded_service empty_query = Inr (empty_query\<lparr>limit := Some (LNum (Num 100))\<rparr>) \<and>
   validateQuery loaded_service (empty_query\<lparr>limit := Some (LStr ''50'')\<rparr>) =
     Inr (empty_query\<lparr>limit := Some (LNum (Num 50))\<rparr>) \<and>
   validateQuery loaded_service (empty_query\<lparr>limit := Some (LStr ''soon'')\<rparr>) =
     Inr (empty_query\<lparr>limit := Some (LNum (Num 100))\<rparr>) \<and>
   validateQuery loaded_service (empty_query\<lparr>limit := Some (LNum (Num 20))\<rparr>) =
     Inr (empty_query\<lparr>limit := Some (LNum (Num 20))\<rparr>) \<and>
   validateQuery loaded_service (empty_query\<lparr>limit := Some (LBool True)\<rparr>) =
     Inr (empty_query\<lparr>limit := Some (LNum (Num 100))\<rparr>)"
proof -
  let ?r = "\<lambda>n. empty_query\<lparr>limit := Some (LNum (Num n))\<rparr>"
  have h1: "validateQuery loaded_service empty_query = Inr (?r 100)"
    by (simp add: validate_eval)
  have h2: "validateQuery loaded_service (empty_query\<lparr>limit := Some (LStr ''50'')\<rparr>) = Inr (?r 50)"
    by (simp add: validate_eval)
  have h3: "validateQuery loaded_service (empty_query\<lparr>limit := Some (LStr ''soon'')\<rparr>) = Inr (?r 100)"
    by (simp add: validate_eval)
  have h4: "validateQuery loaded_service (empty_query\<lparr>limit := Some (LNum (Num 20))\<rparr>) = Inr (?r 20)"
    by (simp add: validate_eval)
  have h5: "validateQuery loaded_service (empty_query\<lparr>limit := Some (LBool True)\<rparr>) = Inr (?r 100)"
    by (simp add: validate_eval)
  have p50: "parseInt ''50'' = Num 50"
    by (simp add: parseInt_def StrWhiteSpaceChar_def is_digit_def digits_value_def digit_value_def)
  have "limit (?r 100) = Some (LNum (Num 100))"
    using validateQuery_limit[OF h1] by (simp add: limit_truthy_def empty_query_def)
  moreover have "limit (?r 50) = Some (LNum (Num 50))"
    using validateQuery_limit[OF h2] by (simp add: p50)
  moreover have "limit (?r 20) = Some (LNum (Num 20))"
    using validateQuery_limit[OF h4] by simp
  ultimately show ?thesis using h1 h2 h3 h4 h5 by simp
qed

subsection \<open>C4: the lookback field\<close>

text \<open>
  Claim C4, as stated, does not hold: a lookback holding the empty string is present and
  does not match the pattern, yet line 236 (\<^verbatim>\<open>query.lookback && \<dots>\<close>) leaves it as it is.
\<close>

theorem validateQuery_lookback_counterexample:
  "validateQuery loaded_service (empty_query\<lparr>lookback := Some ''''\<rparr>) =
     Inr (empty_query\<lparr>lookback := Some '''', limit := Some (LNum (Num 100))\<rparr>) \<and>
   \<not> lookback_test ''''"
  by (simp add: validate_eval)

text \<open>
  Claim C4, amended: for every query whose lookback is a non-empty string, a returned
  query has the lookback \<^verbatim>\<open>1h\<close> when the string does not match \<^verbatim>\<open>^\d+[hdms]$\<close> and the
  same lookback when it matches; and the lookback never makes \<^verbatim>\<open>validateQuery\<close> fail: a
  query that is rejected is rejected in the same way with the lookback \<^verbatim>\<open>1h\<close>.
\<close>

theorem validateQuery_lookback:
  assumes "lookback query = Some l" and "l \<noteq> []"
  shows "(\<forall>q'. validateQuery this query = Inr q' \<longrightarrow>
            lookback q' = Some (if lookback_test l then l else ''1h'')) \<and>
         (\<forall>e. validateQuery this query = Inl e \<longrightarrow>
            validateQuery this (query\<lparr>lookback := Some ''1h''\<rparr>) = Inl e)"
  using assms
  by (auto simp: validateQuery_Inr validateQuery_Inl unknown_service_def fix_lookback_def)

text \<open>Witness for C4: \<^verbatim>\<open>soon\<close> and \<^verbatim>\<open>5x\<close> are replaced by \<^verbatim>\<open>1h\<close>, \<^verbatim>\<open>24h\<close> is kept, and
  the query is returned in each case.\<close>

theorem validateQuery_lookback_witness:
  "validateQuery loaded_service (empty_query\<lparr>lookback := Some ''soon''\<rparr>) =
     Inr (empty_query\<lparr>lookback := Some ''1h'', limit := Some (LNum (Num 100))\<rparr>) \<and>
   validateQuery loaded_service (empty_query\<lparr>lookback := Some ''5x''\<rparr>) =
     Inr (empty_query\<lparr>lookback := Some ''1h'', limit := Some (LNum (Num 100))\<rparr>) \<and>
   validateQuery loaded_service (empty_query\<lparr>lookback := Some ''24h''\<rparr>) =
     Inr (empty_query\<lparr>lookback := Some ''24h'', limit := Some (LNum (Num 100))\<rparr>) \<and>
   lookback (empty_query\<lparr>lookback := Some ''1h'', limit := Some (LNum (Num 100))\<rparr>) = Some ''1h'' \<and>
   lookback (empty_query\<lparr>lookback := Some ''24h'', limit := Some (LNum (Num 100))\<rparr>) = Some ''24h''"
proof -
  let ?r = "\<lambda>l. empty_query\<lparr>lookback := Some l, limit := Some (LNum (Num 100))\<rparr>"
  have h1: "validateQuery loaded_service (empty_query\<lparr>lookback := Some ''soon''\<rparr>) = Inr (?r ''1h'')"
    by (simp add: validate_eval)
  have h2: "validateQuery loaded_service (empty_query\<lparr>lookback := Some ''5x''\<rparr>) = Inr (?r ''1h'')"
    by (simp add: validate_eval)
  have h3: "validateQuery loaded_service (empty_query\<lparr>lookback := Some ''24h''\<rparr>) = Inr (?r ''24h'')"
    by (simp add: validate_eval)
  have "lookback (?r ''1h'') = Some ''1h''"
    using validateQuery_lookback[of "empty_query\<lparr>lookback := Some ''soon''\<rparr>" "''soon''" loaded_service] h1
    by simp
  moreover have "lookback (?r ''24h'') = Some ''24h''"
    using validateQuery_lookback[of "empty_query\<lparr>lookback := Some ''24h''\<rparr>" "''24h''" loaded_service] h3
    by simp
  ultimately show ?thesis using h1 h2 h3 by simp
qed

subsection \<open>C5: the duration fields\<close>

text \<open>
  Claim C5, as stated, does not hold: a \<^verbatim>\<open>minDuration\<close> (or \<^verbatim>\<open>maxDuration\<close>) holding the
  empty string is present and does not match the pattern, yet lines 242 and 245
  (\<^verbatim>\<open>query.minDuration && \<dots>\<close>) leave it in the query.
\<close>

theorem validateQuery_durations_counterexample:
  "validateQuery loaded_service (empty_query\<lparr>minDuration := Some '''', maxDuration := Some ''''\<rparr>) =
     Inr (empty_query\<lparr>minDuration := Some '''', maxDuration := Some '''',
                       limit := Some (LNum (Num 100))\<rparr>) \<and>
   \<not> durationRegex_test ''''"
  by (simp add: validate_eval)

text \<open>
  Claim C5, amended: for every query that \<^verbatim>\<open>validateQuery\<close> returns, a \<^verbatim>\<open>minDuration\<close>
  (respectively \<^verbatim>\<open>maxDuration\<close>) that was a non-empty string is absent from the result when
  it does not match \<^verbatim>\<open>^\d+(\.\d+)?[hdms]$\<close>, never replaced by another value, and is
  returned unchanged when it matches.
\<close>

theorem validateQuery_durations:
  assumes "validateQuery this query = Inr q'"
  shows "(\<forall>d. minDuration query = Some d \<and> d \<noteq> [] \<longrightarrow>
            minDuration q' = (if durationRegex_test d then Some d else None)) \<and>
         (\<forall>d. maxDuration query = Some d \<and> d \<noteq> [] \<longrightarrow>
            maxDuration q' = (if durationRegex_test d then Some d else None))"
  using assms
  by (simp add: validateQuery_Inr minDuration_drop_minDuration maxDuration_drop_maxDuration)

text \<open>Witness for C5: \<^verbatim>\<open>100ms\<close> does not match (two unit letters) and is removed,
  \<^verbatim>\<open>1.5s\<close> matches and is kept.\<close>

theorem validateQuery_durations_witness:
  "validateQuery loaded_service (empty_query\<lparr>minDuration := Some ''100ms'', maxDuration := Some ''1.5s''\<rparr>) =
     Inr (empty_query\<lparr>maxDuration := Some ''1.5s'', limit := Some (LNum (Num 100))\<rparr>) \<and>
   minDuration (empty_query\<lparr>maxDuration := Some ''1.5s'', limit := Some (LNum (Num 100))\<rparr>) = None \<and>
   maxDuration (empty_query\<lparr>maxDuration := Some ''1.5s'', limit := Some (LNum (Num 100))\<rparr>) = Some ''1.5s''"
proof -
  let ?q = "empty_query\<lparr>minDuration := Some ''100ms'', maxDuration := Some ''1.5s''\<rparr>"
  let ?r = "empty_query\<lparr>maxDuration := Some ''1.5s'', limit := Some (LNum (Num 100))\<rparr>"
  have h: "validateQuery loaded_service ?q = Inr ?r"
    by (simp add: validate_eval)
  have "minDuration ?r = None \<and> maxDuration ?r = Some ''1.5s''"
    using validateQuery_durations[OF h]
    by (simp add: durationRegex_test_def is_digit_def is_unit_def)
  with h show ?thesis by simp
qed

section \<open>The claim about the extraction\<close>

subsection \<open>C6: the JSON object in the response\<close>

text \<open>
  Claim C6, as stated, does not hold. The pattern \<^verbatim>\<open>/\{[\s\S]*\}/\<close> is greedy: the match
  ends at the last \<^verbatim>\<open>}\<close> of the text, not at the \<^verbatim>\<open>}\<close> that closes the first \<^verbatim>\<open>{\<close>. In the
  first text below the object is followed by prose with braces: the span up to the
  closing brace is the object and parses, but the match runs on to the last brace, does
  not parse, and the call ends with the \<^verbatim>\<open>SyntaxError\<close> of the second \<^verbatim>\<open>JSON.parse\<close>. And a
  text that parses as a whole is returned whatever it is: \<^verbatim>\<open>42\<close> yields the number, not
  an error, although no attempt yields an object.
\<close>

theorem extract_json_counterexample:
  \<open>extract_json ''Here is the query: {"service":"order","limit":10}. Fields in {braces} are optional.'' =
     Inl SyntaxError \<and>
   matching_brace_span ''Here is the query: {"service":"order","limit":10}. Fields in {braces} are optional.'' =
     Some ''{"service":"order","limit":10}'' \<and>
   JSON_parse ''{"service":"order","limit":10}'' =
     Some (JObject [(''service'', JString ''order''), (''limit'', JNumber (Num 10))]) \<and>
   extract_json ''42'' = Inr (JNumber (Num 42))\<close>
  by (simp add: extract_json_def brace_match_def matching_brace_span_def json_eval)

text \<open>
  Claim C6, amended: for every response text, the whole text is parsed first, and when it
  parses its value is the result, whatever kind of JSON value it is. When it does not
  parse, the text from the first \<^verbatim>\<open>{\<close> through the last \<^verbatim>\<open>}\<close> of the text is taken (there
  is such a text exactly when a \<^verbatim>\<open>}\<close> follows the first \<^verbatim>\<open>{\<close>) and parsed: its value is
  the result, and when it does not parse the \<^verbatim>\<open>SyntaxError\<close> of that parse is thrown. When
  there is no such text, the error \<^verbatim>\<open>No valid JSON object found in the response\<close> is
  thrown. On the text \<^verbatim>\<open>Sure! Here is the JSON: {"service":"order","limit":10} Hope that helps.\<close>
  the result is the object with service \<^verbatim>\<open>order\<close> and limit 10.
\<close>

theorem extract_json_cases:
  \<open>(\<forall>v. JSON_parse t = Some v \<longrightarrow> extract_json t = Inr v) \<and>
   (\<forall>pre inner post.
      JSON_parse t = None \<and> t = pre @ CHR ''{'' # inner @ CHR ''}'' # post \<and>
      CHR ''{'' \<notin> set pre \<and> CHR ''}'' \<notin> set post \<longrightarrow>
      extract_json t =
        (case JSON_parse (CHR ''{'' # inner @ [CHR ''}'']) of
           Some v \<Rightarrow> Inr v
         | None \<Rightarrow> Inl SyntaxError)) \<and>
   (JSON_parse t = None \<and>
    \<not> (\<exists>pre inner post. t = pre @ CHR ''{'' # inner @ CHR ''}'' # post \<and>
          CHR ''{'' \<notin> set pre \<and> CHR ''}'' \<notin> set post) \<longrightarrow>
      extract_json t = Inl (Error ''No valid JSON object found in the response'')) \<and>
   extract_json ''Sure! Here is the JSON: {"service":"order","limit":10} Hope that helps.'' =
     Inr (JObject [(''service'', JString ''order''), (''limit'', JNumber (Num 10))])\<close>
proof (intro conjI allI impI)
  fix v assume "JSON_parse t = Some v"
  then show "extract_json t = Inr v" by (simp add: extract_json_def)
next
  fix pre inner post
  assume a: "JSON_parse t = None \<and> t = pre @ CHR ''{'' # inner @ CHR ''}'' # post \<and>
      CHR ''{'' \<notin> set pre \<and> CHR ''}'' \<notin> set post"
  then have m: "brace_match t = Some (CHR ''{'' # inner @ [CHR ''}''])"
    using brace_match_SomeI[of pre post inner] by simp
  from a have p: "JSON_parse t = None" by (rule conjunct1)
  show "extract_json t =
        (case JSON_parse (CHR ''{'' # inner @ [CHR ''}'']) of
           Some v \<Rightarrow> Inr v
         | None \<Rightarrow> Inl SyntaxError)"
    unfolding extract_json_def p m
    by (simp split: option.splits)
next
  assume a: "JSON_parse t = None \<and>
    \<not> (\<exists>pre inner post. t = pre @ CHR ''{'' # inner @ CHR ''}'' # post \<and>
          CHR ''{'' \<notin> set pre \<and> CHR ''}'' \<notin> set post)"
  have "brace_match t = None"
  proof (cases "brace_match t")
    case None
    then show ?thesis .
  next
    case (Some m)
    from brace_match_SomeD[OF Some] a show ?thesis by blast
  qed
  with a show "extract_json t = Inl (Error ''No valid JSON object found in the response'')"
    by (simp add: extract_json_def)
next
  show \<open>extract_json ''Sure! Here is the JSON: {"service":"order","limit":10} Hope that helps.'' =
     Inr (JObject [(''service'', JString ''order''), (''limit'', JNumber (Num 10))])\<close>
    by (simp add: extract_json_def brace_match_def json_eval)
qed

text \<open>Witness for C6: a text that parses as a whole, a text in which no \<^verbatim>\<open>}\<close> follows a
  \<^verbatim>\<open>{\<close>, a text with an object inside prose, and a text whose first \<^verbatim>\<open>{\<close> and last \<^verbatim>\<open>}\<close> hold
  no JSON.\<close>

theorem extract_json_cases_witness:
  \<open>extract_json ''{"limit":5}'' = Inr (JObject [(''limit'', JNumber (Num 5))]) \<and>
   extract_json ''no braces } here {'' = Inl (Error ''No valid JSON object found in the response'') \<and>
   extract_json ''see {"a":[]} and so on'' = Inr (JObject [(''a'', JArray [])]) \<and>
   extract_json ''see {"a":{}} and {so} on'' = Inl SyntaxError\<close>
proof -
  have p1: \<open>JSON_parse ''{"limit":5}'' = Some (JObject [(''limit'', JNumber (Num 5))])\<close>
    by (simp add: json_eval)
  have p2: \<open>JSON_parse ''no braces } here {'' = None\<close>
    by (simp add: json_eval)
  have n2: \<open>\<not> (\<exists>pre inner post. ''no braces } here {'' = pre @ CHR ''{'' # inner @ CHR ''}'' # post \<and>
          CHR ''{'' \<notin> set pre \<and> CHR ''}'' \<notin> set post)\<close>
  proof -
    have \<open>brace_match ''no braces } here {'' = None\<close> by (simp add: brace_match_def)
    then show ?thesis using brace_match_SomeI by fastforce
  qed
  have p3: \<open>JSON_parse ''see {"a":[]} and so on'' = None\<close>
    by (simp add: json_eval)
  have d3: \<open>''see {"a":[]} and so on'' = ''see '' @ CHR ''{'' # ''"a":[]'' @ CHR ''}'' # '' and so on'' \<and>
     CHR ''{'' \<notin> set ''see '' \<and> CHR ''}'' \<notin> set '' and so on''\<close>
    by simp
  have p3': \<open>JSON_parse (CHR ''{'' # ''"a":[]'' @ [CHR ''}'']) = Some (JObject [(''a'', JArray [])])\<close>
    by (simp add: json_eval)
  have p4: \<open>JSON_parse ''see {"a":{}} and {so} on'' = None\<close>
    by (simp add: json_eval)
  have d4: \<open>''see {"a":{}} and {so} on'' = ''see '' @ CHR ''{'' # ''"a":{}} and {so'' @ CHR ''}'' # '' on'' \<and>
     CHR ''{'' \<notin> set ''see '' \<and> CHR ''}'' \<notin> set '' on''\<close>
    by simp
  have p4': \<open>JSON_parse (CHR ''{'' # ''"a":{}} and {so'' @ [CHR ''}'']) = None\<close>
    by (simp add: json_eval)
  have \<open>extract_json ''{"limit":5}'' = Inr (JObject [(''limit'', JNumber (Num 5))])\<close>
    using extract_json_cases[of \<open>''{"limit":5}''\<close>] p1 by simp
  moreover have \<open>extract_json ''no braces } here {'' =
      Inl (Error ''No valid JSON object found in the response'')\<close>
    using extract_json_cases[of \<open>''no braces } here {''\<close>] p2 n2 by blast
  moreover have \<open>extract_json ''see {"a":[]} and so on'' = Inr (JObject [(''a'', JArray [])])\<close>
  proof -
    from extract_json_cases[of \<open>''see {"a":[]} and so on''\<close>] p3 d3
    have \<open>extract_json ''see {"a":[]} and so on'' =
        (case JSON_parse (CHR ''{'' # ''"a":[]'' @ [CHR ''}'']) of
           Some v \<Rightarrow> Inr v | None \<Rightarrow> Inl SyntaxError)\<close>
      by blast
    then show ?thesis by (simp only: p3' option.case)
  qed
  moreover have \<open>extract_json ''see {"a":{}} and {so} on'' = Inl SyntaxError\<close>
  proof -
    from extract_json_cases[of \<open>''see {"a":{}} and {so} on''\<close>] p4 d4
    have \<open>extract_json ''see {"a":{}} and {so} on'' =
        (case JSON_parse (CHR ''{'' # ''"a":{}} and {so'' @ [CHR ''}'']) of
           Some v \<Rightarrow> Inr v | None \<Rightarrow> Inl SyntaxError)\<close>
      by blast
    then show ?thesis by (simp only: p4' option.case)
  qed
  ultimately show ?thesis by blast
qed


section \<open>The claims about a call\<close>

subsection \<open>C7: the health check comes first\<close>

text \<open>
  Claim C7: in every call of \<^verbatim>\<open>translateQuery\<close>, whatever the service has loaded or done
  before, the first request is the health check; and whenever the health check fails (a
  status outside 200-299, a \<^verbatim>\<open>fetch\<close> that rejects because there is no connection or
  because its 5000 ms limit is exceeded) the call fails with the error that tells how to
  install and start the generation service, the health check is the only request of the
  call, so the generation request is never sent, and the service is left as it was.
\<close>

theorem translateQuery_health_check:
  "(\<exists>rest. requests (events_of (translateQuery w this query sel)) = GetHealth # rest) \<and>
   (health_failed w \<longrightarrow>
      result_of (translateQuery w this query sel) = Inl (Error unavailable_message) \<and>
      requests (events_of (translateQuery w this query sel)) = [GetHealth] \<and>
      service_after (translateQuery w this query sel) = this)"
proof
  obtain rest where "events_of (translateQuery w this query sel) =
     [ConsoleLog ''Starting translation for query:'', Fetch GetHealth] @ rest"
    using translateQuery_events_start by blast
  then show "\<exists>rest. requests (events_of (translateQuery w this query sel)) = GetHealth # rest"
    by (simp add: requests_append)
next
  show "health_failed w \<longrightarrow>
      result_of (translateQuery w this query sel) = Inl (Error unavailable_message) \<and>
      requests (events_of (translateQuery w this query sel)) = [GetHealth] \<and>
      service_after (translateQuery w this query sel) = this"
    by (simp add: translateQuery_health_failed result_of_def events_of_def service_after_def)
qed

text \<open>Witness for C7: a health check that times out, one that finds no connection, and
  one that is answered with status 503; with and without loaded services.\<close>

theorem translateQuery_health_check_witness:
  "result_of (translateQuery (example_world\<lparr>health := Inl TimeoutError\<rparr>) fresh_service ''errors'' None) =
     Inl (Error unavailable_message) \<and>
   requests (events_of (translateQuery (example_world\<lparr>health := Inl TimeoutError\<rparr>) fresh_service ''errors'' None)) =
     [GetHealth] \<and>
   result_of (translateQuery (example_world\<lparr>health := Inl TypeError\<rparr>) loaded_service ''errors'' None) =
     Inl (Error unavailable_message) \<and>
   requests (events_of (translateQuery (example_world\<lparr>health := Inl TypeError\<rparr>) loaded_service ''errors'' None)) =
     [GetHealth] \<and>
   result_of (translateQuery (example_world\<lparr>health := Inr (Response 503 ''Service Unavailable'' None)\<rparr>)
                loaded_service ''errors'' (Some ''payment'')) =
     Inl (Error unavailable_message) \<and>
   requests (events_of (translateQuery (example_world\<lparr>health := Inr (Response 503 ''Service Unavailable'' None)\<rparr>)
                loaded_service ''errors'' (Some ''payment''))) =
     [GetHealth]"
proof -
  have f1: "health_failed (example_world\<lparr>health := Inl TimeoutError\<rparr>)"
    by (simp add: health_failed_def)
  have f2: "health_failed (example_world\<lparr>health := Inl TypeError\<rparr>)"
    by (simp add: health_failed_def)
  have f3: "health_failed (example_world\<lparr>health := Inr (Response 503 ''Service Unavailable'' None)\<rparr>)"
    by (simp add: health_failed_def ok_def)
  show ?thesis
    using translateQuery_health_check[of "example_world\<lparr>health := Inl TimeoutError\<rparr>"
              fresh_service "''errors''" None]
          translateQuery_health_check[of "example_world\<lparr>health := Inl TypeError\<rparr>"
              loaded_service "''errors''" None]
          translateQuery_health_check[of
              "example_world\<lparr>health := Inr (Response 503 ''Service Unavailable'' None)\<rparr>"
              loaded_service "''errors''" "Some ''payment''"]
          f1 f2 f3
    by blast
qed

subsection \<open>C8: failures while the services are loaded\<close>

text \<open>
  Claim C8: when the services are loaded (the health check has passed and no service is
  loaded yet), a failure of the service-list request fails the whole call with the error
  \<^verbatim>\<open>Failed to fetch available services. Please try again later.\<close>, and nothing is sent
  after that request. When the service-list request succeeds, \<^verbatim>\<open>fetchServices\<close> returns
  the listed names whatever happens to the operations requests: every listed service gets
  an entry in \<^verbatim>\<open>serviceRoutes\<close>, a service whose operations request failed gets the empty
  list and a line on \<^verbatim>\<open>console.error\<close>, and the call goes on to send the generation
  request (when no service is selected, or the selected one is listed).
\<close>

theorem fetchServices_failures:
  assumes "\<not> health_failed w" and "services this = []"
  shows "(service_list_failed w \<longrightarrow>
            result_of (translateQuery w this query sel) = Inl (Error services_failed_message) \<and>
            requests (events_of (translateQuery w this query sel)) = [GetHealth, GetServices]) \<and>
         (\<not> service_list_failed w \<longrightarrow>
            result_of (fetchServices w this) = Inr (listed_services w) \<and>
            services (service_after (fetchServices w this)) = listed_services w \<and>
            (\<forall>s\<in>set (listed_services w).
               serviceRoutes (service_after (fetchServices w this)) s \<noteq> None \<and>
               (operations_failed w s \<longrightarrow>
                  serviceRoutes (service_after (fetchServices w this)) s = Some [] \<and>
                  ConsoleError (''Failed to fetch operations for '' @ s @ '':'')
                    \<in> set (events_of (fetchServices w this)))) \<and>
            (sel = None \<or> sel = Some [] \<or> (\<exists>s. sel = Some s \<and> s \<in> set (listed_services w)) \<longrightarrow>
               (\<exists>p. PostGenerate p \<in> set (requests (events_of (translateQuery w this query sel))))))"
proof (intro conjI impI)
  assume f: "service_list_failed w"
  have t: "translateQuery w this query sel =
      rethrow (Error services_failed_message) this
        ([ConsoleLog ''Starting translation for query:'', Fetch GetHealth] @
         [Fetch GetServices, ConsoleError ''Failed to fetch services:''])"
    by (simp add: translateQuery_def health_check_ok[OF assms(1)] ensure_loaded_fresh[OF assms(2)]
        fetchServices_failed[OF f])
  show "result_of (translateQuery w this query sel) = Inl (Error services_failed_message)"
    by (simp add: t rethrow_def result_of_def)
  show "requests (events_of (translateQuery w this query sel)) = [GetHealth, GetServices]"
    by (simp add: t rethrow_def events_of_def)
next
  assume ok: "\<not> service_list_failed w"
  let ?names = "listed_services w"
  let ?st = "settle_operations w (this\<lparr>services := ?names\<rparr>) ?names"
  note fs = fetchServices_ok[OF ok, of this]
  show "result_of (fetchServices w this) = Inr ?names"
    by (simp add: fs result_of_def)
  show "services (service_after (fetchServices w this)) = ?names"
    by (simp add: fs service_after_def)
  show "\<forall>s\<in>set ?names.
      serviceRoutes (service_after (fetchServices w this)) s \<noteq> None \<and>
      (operations_failed w s \<longrightarrow>
         serviceRoutes (service_after (fetchServices w this)) s = Some [] \<and>
         ConsoleError (''Failed to fetch operations for '' @ s @ '':'')
           \<in> set (events_of (fetchServices w this)))"
  proof
    fix s assume s: "s \<in> set ?names"
    from settle_operations_routes[OF s, of w "this\<lparr>services := ?names\<rparr>"]
    have r: "serviceRoutes (fst ?st) s \<noteq> None"
      "operations_failed w s \<longrightarrow> serviceRoutes (fst ?st) s = Some []" by blast+
    have l: "operations_failed w s \<longrightarrow>
       ConsoleError (''Failed to fetch operations for '' @ s @ '':'') \<in> set (snd ?st)"
      using settle_operations_logs[OF s, of w "this\<lparr>services := ?names\<rparr>"] by blast
    from r l show "serviceRoutes (service_after (fetchServices w this)) s \<noteq> None \<and>
      (operations_failed w s \<longrightarrow>
         serviceRoutes (service_after (fetchServices w this)) s = Some [] \<and>
         ConsoleError (''Failed to fetch operations for '' @ s @ '':'')
           \<in> set (events_of (fetchServices w this)))"
      by (simp add: fs service_after_def events_of_def)
  qed
  assume sel: "sel = None \<or> sel = Some [] \<or> (\<exists>s. sel = Some s \<and> s \<in> set ?names)"
  let ?this1 = "fst ?st"
  have all: "\<forall>s\<in>set ?names. serviceRoutes ?this1 s \<noteq> None"
    using settle_operations_routes[of _ ?names w "this\<lparr>services := ?names\<rparr>"] by blast
  have sv: "services ?this1 = ?names" by simp
  have full: "\<exists>info. full_view ?this1 = Inr info"
  proof -
    from service_lines_ok[of ?names ?this1] all obtain ls where
      "service_lines ?this1 ?names = Inr ls" by blast
    with sv show ?thesis by (simp add: full_view_def)
  qed
  have "\<exists>info. servicesInfo ?this1 sel = Inr info"
  proof (cases "sel = None \<or> sel = Some []")
    case True
    with full show ?thesis by (auto simp: servicesInfo_def)
  next
    case False
    with sel obtain s where s: "sel = Some s" "s \<noteq> []" "s \<in> set ?names" by auto
    with all obtain routes where "serviceRoutes ?this1 s = Some routes" by blast
    with s show ?thesis by (simp add: servicesInfo_def routes_text_def)
  qed
  then obtain info where info: "servicesInfo ?this1 sel = Inr info" by blast
  have t: "translateQuery w this query sel =
      request_generation w ?this1
        ([ConsoleLog ''Starting translation for query:'', Fetch GetHealth] @
         Fetch GetServices # map (\<lambda>s. Fetch (GetOperations s)) ?names @ snd ?st) info query"
    by (simp add: translateQuery_def health_check_ok[OF assms(1)] ensure_loaded_fresh[OF assms(2)]
        fs info)
  show "\<exists>p. PostGenerate p \<in> set (requests (events_of (translateQuery w this query sel)))"
    unfolding t by (rule request_generation_sends)
qed

text \<open>Witness for C8: a service list answered with status 502; and a world where the
  operations of \<^verbatim>\<open>payment\<close> fail with status 500, in which the call still returns the
  query of the response.\<close>

theorem fetchServices_failures_witness:
  "result_of (translateQuery (example_world\<lparr>service_list := Inr (Response 502 ''Bad Gateway'' None)\<rparr>)
                fresh_service ''errors'' None) = Inl (Error services_failed_message) \<and>
   requests (events_of (translateQuery (example_world\<lparr>service_list := Inr (Response 502 ''Bad Gateway'' None)\<rparr>)
                fresh_service ''errors'' None)) = [GetHealth, GetServices] \<and>
   result_of (fetchServices example_world fresh_service) = Inr [''auth-service'', ''payment''] \<and>
   serviceRoutes (service_after (fetchServices example_world fresh_service)) ''payment'' = Some [] \<and>
   ConsoleError ''Failed to fetch operations for payment:''
     \<in> set (events_of (fetchServices example_world fresh_service)) \<and>
   (\<exists>p. PostGenerate p \<in> set (requests (events_of
      (translateQuery example_world fresh_service ''slowest traces for payment in the last 2 hours'' None)))) \<and>
   result_of (translateQuery example_world fresh_service ''slowest traces for payment in the last 2 hours'' None) =
     Inr \<lparr>service = Some ''payment'', tags = None, lookback = Some ''2h'',
          limit = Some (LNum (Num 100)), minDuration = Some ''1s'', maxDuration = None\<rparr>"
proof -
  let ?bad = "example_world\<lparr>service_list := Inr (Response 502 ''Bad Gateway'' None)\<rparr>"
  have h: "\<not> health_failed example_world" "\<not> health_failed ?bad"
    by (simp_all add: world_eval)
  have e: "services fresh_service = []" by (simp add: fresh_service_def)
  have b: "service_list_failed ?bad" by (simp add: world_eval)
  have g: "\<not> service_list_failed example_world" by (simp add: world_eval)
  have l: "listed_services example_world = [''auth-service'', ''payment'']" by (simp add: world_eval)
  have o: "operations_failed example_world ''payment''" by (simp add: world_eval)
  have 1: "result_of (translateQuery ?bad fresh_service ''errors'' None) = Inl (Error services_failed_message) \<and>
     requests (events_of (translateQuery ?bad fresh_service ''errors'' None)) = [GetHealth, GetServices]"
    using fetchServices_failures[OF h(2) e, of "''errors''" None] b by blast
  have 2: "result_of (fetchServices example_world fresh_service) = Inr [''auth-service'', ''payment''] \<and>
     serviceRoutes (service_after (fetchServices example_world fresh_service)) ''payment'' = Some [] \<and>
     ConsoleError ''Failed to fetch operations for payment:''
       \<in> set (events_of (fetchServices example_world fresh_service)) \<and>
     (\<exists>p. PostGenerate p \<in> set (requests (events_of
        (translateQuery example_world fresh_service ''slowest traces for payment in the last 2 hours'' None))))"
    using fetchServices_failures[OF h(1) e, of "''slowest traces for payment in the last 2 hours''" None] g o
    by (simp add: l)
  have 3: "result_of (translateQuery example_world fresh_service ''slowest traces for payment in the last 2 hours'' None) =
     Inr \<lparr>service = Some ''payment'', tags = None, lookback = Some ''2h'',
          limit = Some (LNum (Num 100)), minDuration = Some ''1s'', maxDuration = None\<rparr>"
    by (simp add: call_eval world_eval extract_json_def brace_match_def json_eval validate_eval)
  from 1 2 3 show ?thesis by blast
qed


section \<open>The claim about the prompt\<close>

subsection \<open>C9: rendering the prompt\<close>

text \<open>
  Claim C9 says that the placeholder \<^verbatim>\<open>{query}\<close> is replaced by the user's text and that
  nothing else is substituted. \<^verbatim>\<open>String.prototype.replace\<close> reads its second argument as a
  replacement template, so the user's text is not inserted as it is. For the query
  \<^verbatim>\<open>top $$ spenders\<close> and every metadata view: the template with the view in it still
  has its placeholder, between some \<open>pre\<close> and \<open>post\<close>, and the prompt that is sent holds
  \<^verbatim>\<open>top $ spenders\<close> between them, not the user's text.
\<close>

theorem render_rewrites_user_text:
  "\<exists>pre post.
     find_first ''{query}'' (js_replace ''{services}'' info SYSTEM_PROMPT) = Some (pre, post) \<and>
     render SYSTEM_PROMPT info ''top $$ spenders'' = pre @ ''top $ spenders'' @ post \<and>
     render SYSTEM_PROMPT info ''top $$ spenders'' \<noteq> pre @ ''top $$ spenders'' @ post"
proof -
  obtain pre post where f: "find_first ''{query}'' (js_replace ''{services}'' info SYSTEM_PROMPT) = Some (pre, post)"
    using render_keeps_query_placeholder by blast
  have r: "render SYSTEM_PROMPT info ''top $$ spenders'' = pre @ ''top $ spenders'' @ post"
    by (simp add: render_def js_replace_def[of "''{query}''"] f)
  have "length (pre @ ''top $ spenders'' @ post) \<noteq> length (pre @ ''top $$ spenders'' @ post)"
    by simp
  then have "pre @ ''top $ spenders'' @ post \<noteq> pre @ ''top $$ spenders'' @ post"
    by auto
  with f r show ?thesis by simp
qed

section \<open>The claim about a selected service that is not loaded\<close>

subsection \<open>C10: a selected service with no routes entry\<close>

text \<open>
  Claim C10, as stated, does not hold for every call: the view is built only after the
  health check and the loading of the services, so a call whose health check fails ends
  with the error of the health check, not with a \<^verbatim>\<open>TypeError\<close>, although its selected
  service has no entry in \<^verbatim>\<open>serviceRoutes\<close>.
\<close>

theorem translateQuery_unknown_selected_counterexample:
  "serviceRoutes fresh_service ''ghost'' = None \<and>
   result_of (translateQuery (example_world\<lparr>health := Inr (Response 503 ''Service Unavailable'' None)\<rparr>)
                fresh_service ''errors'' (Some ''ghost'')) =
     Inl (Error unavailable_message) \<and>
   Error unavailable_message \<noteq> TypeError"
  by (simp add: call_eval world_eval)

text \<open>
  Claim C10, amended: for every call whose health check passes and whose services are
  loaded (already, or by a successful \<^verbatim>\<open>fetchServices\<close>), and whose selected service is a
  non-empty name with no entry in \<^verbatim>\<open>serviceRoutes\<close> after that, the call fails with a
  \<^verbatim>\<open>TypeError\<close> while the view of the selected service is built: not with the error of an
  invalid service, before \<^verbatim>\<open>Request body:\<close> is logged, and with no generation request.
\<close>

theorem translateQuery_unknown_selected:
  assumes "\<not> health_failed w"
    and "result_of (ensure_loaded w this) = Inr ()"
    and "s \<noteq> []"
    and "serviceRoutes (service_after (ensure_loaded w this)) s = None"
  shows "result_of (translateQuery w this query (Some s)) = Inl TypeError \<and>
         (\<forall>known. result_of (translateQuery w this query (Some s)) \<noteq>
                    Inl (Error (invalid_service_message s known))) \<and>
         list_all (\<lambda>r. \<not> is_generate r) (requests (events_of (translateQuery w this query (Some s)))) \<and>
         ConsoleLog ''Request body:'' \<notin> set (events_of (translateQuery w this query (Some s)))"
proof -
  obtain this1 ev1 where el: "ensure_loaded w this = (Inr (), this1, ev1)"
    using assms(2) by (cases "ensure_loaded w this") (auto simp: result_of_def)
  with assms(4) have none: "serviceRoutes this1 s = None" by (simp add: service_after_def)
  have info: "servicesInfo this1 (Some s) = Inl TypeError"
    using assms(3) none by (simp add: servicesInfo_def routes_text_def)
  have t: "translateQuery w this query (Some s) =
     (Inl TypeError, this1,
      [ConsoleLog ''Starting translation for query:'', Fetch GetHealth] @ ev1 @
      [ConsoleError ''AI translation failed:''])"
    by (simp add: translateQuery_def health_check_ok[OF assms(1)] el info rethrow_def)
  have ev1: "list_all (\<lambda>r. \<not> is_generate r) (requests ev1) \<and> ConsoleLog ''Request body:'' \<notin> set ev1"
  proof (cases "services this = []")
    case False
    with el show ?thesis by (simp add: ensure_loaded_def)
  next
    case True
    show ?thesis
    proof (cases "service_list_failed w")
      case f: True
      with True el show ?thesis
        by (simp add: ensure_loaded_def fetchServices_failed)
    next
      case ok: False
      let ?names = "listed_services w"
      let ?st = "settle_operations w (this\<lparr>services := ?names\<rparr>) ?names"
      have logs: "requests (snd (settle_operations w t ss)) = [] \<and>
                  ConsoleLog ''Request body:'' \<notin> set (snd (settle_operations w t ss))" for t ss
      proof (induction ss arbitrary: t)
        case Nil
        then show ?case by simp
      next
        case (Cons a ss)
        obtain t1 e1 where f1: "fetchServiceOperations w t a = (t1, e1)"
          by (cases "fetchServiceOperations w t a") auto
        obtain t2 e2 where g1: "settle_operations w t1 ss = (t2, e2)"
          by (cases "settle_operations w t1 ss") auto
        have "requests e1 = [] \<and> ConsoleLog ''Request body:'' \<notin> set e1"
          using fetchServiceOperations_events[of w t a] f1 by (auto split: if_splits)
        moreover have "requests e2 = [] \<and> ConsoleLog ''Request body:'' \<notin> set e2"
          using Cons.IH[of t1] g1 by simp
        ultimately show ?case using f1 g1 by (simp add: requests_append)
      qed
      have gets: "list_all (\<lambda>r. \<not> is_generate r) (requests (map (\<lambda>s. Fetch (GetOperations s)) ns)) \<and>
                  ConsoleLog ''Request body:'' \<notin> set (map (\<lambda>s. Fetch (GetOperations s)) ns)" for ns
        by (induction ns) (auto simp: is_generate_def)
      from True el fetchServices_ok[OF ok, of this]
      have "ev1 = Fetch GetServices # map (\<lambda>s. Fetch (GetOperations s)) ?names @ snd ?st"
        by (simp add: ensure_loaded_def)
      with logs[of "this\<lparr>services := ?names\<rparr>" ?names] gets[of ?names] show ?thesis
        by (simp add: requests_append is_generate_def)
    qed
  qed
  from ev1 show ?thesis
    by (simp add: t result_of_def events_of_def requests_append is_generate_def)
qed

text \<open>Witness for C10: the service \<^verbatim>\<open>ghost\<close> is not listed; once with the services
  still to load and once with the services loaded.\<close>

theorem translateQuery_unknown_selected_witness:
  "result_of (translateQuery example_world fresh_service ''errors'' (Some ''ghost'')) = Inl TypeError \<and>
   requests (events_of (translateQuery example_world fresh_service ''errors'' (Some ''ghost''))) =
     [GetHealth, GetServices, GetOperations ''auth-service'', GetOperations ''payment''] \<and>
   result_of (translateQuery example_world loaded_service ''errors'' (Some ''ghost'')) = Inl TypeError \<and>
   requests (events_of (translateQuery example_world loaded_service ''errors'' (Some ''ghost''))) =
     [GetHealth]"
proof -
  have h: "\<not> health_failed example_world" by (simp add: world_eval)
  have l1: "result_of (ensure_loaded example_world fresh_service) = Inr ()"
    by (simp add: call_eval world_eval)
  have n1: "serviceRoutes (service_after (ensure_loaded example_world fresh_service)) ''ghost'' = None"
    by (simp add: call_eval world_eval)
  have l2: "result_of (ensure_loaded example_world loaded_service) = Inr ()"
    by (simp add: call_eval loaded_service_def)
  have n2: "serviceRoutes (service_after (ensure_loaded example_world loaded_service)) ''ghost'' = None"
    by (simp add: call_eval loaded_service_def)
  have g: "''ghost'' \<noteq> []" by simp
  have r1: "requests (events_of (translateQuery example_world fresh_service ''errors'' (Some ''ghost''))) =
     [GetHealth, GetServices, GetOperations ''auth-service'', GetOperations ''payment'']"
    by (simp add: call_eval world_eval)
  have r2: "requests (events_of (translateQuery example_world loaded_service ''errors'' (Some ''ghost''))) =
     [GetHealth]"
    by (simp add: call_eval world_eval loaded_service_def)
  from translateQuery_unknown_selected[OF h l1 g n1, of "''errors''"]
       translateQuery_unknown_selected[OF h l2 g n2, of "''errors''"] r1 r2
  show ?thesis by blast
qed

end
